theory Spec2Isabelle
  imports Main "HOL-Library.AList"
begin

section \<open>Conventions of the embedding\<close>

text \<open>
  The theory embeds four Python modules of the repository:
  \<^item> \<^verbatim>\<open>server/services/metacognition/learning_formatter.py\<close> (learning entries, synopsis),
  \<^item> \<^verbatim>\<open>server/services/metacognition/knowledge_storage.py\<close> (markdown files),
  \<^item> \<^verbatim>\<open>server/services/crawler_manager.py\<close> (the crawler singleton),
  \<^item> \<^verbatim>\<open>mcp/mcp_server.py\<close> (the JSON-RPC endpoint).

  A Python name with a leading underscore loses it (\<^verbatim>\<open>_adjust_word_count\<close> is
  \<open>adjust_word_count\<close>); a name that clashes with a constant of HOL gets a suffix.

  Python strings are \<^typ>\<open>string\<close>. The character classes of \<^verbatim>\<open>str.lower\<close>,
  \<^verbatim>\<open>str.split\<close>, \<^verbatim>\<open>\w\<close>, \<^verbatim>\<open>\s\<close> and \<^verbatim>\<open>\d\<close> are those of ASCII.

  A dictionary with a fixed schema (an experience, the session data, a learning entry and
  its sections) is a record whose fields are options: \<open>None\<close> is an absent key, and a
  present key holds a value of the type that the annotations of the functions reading it
  give (\<^verbatim>\<open>problem_desc: str\<close>, \<^verbatim>\<open>steps: List[str]\<close>). \<^verbatim>\<open>d.get(k, default)\<close>
  is \<open>dget (k d) default\<close>. A dictionary whose key set is computed (the bullets of a
  synopsis) is an association list in insertion order.

  A call that reads the clock, the file system or a library outside the repository takes
  what it reads as a parameter. An exception is the \<open>Inl\<close> of a sum.
\<close>

section \<open>Python strings\<close>

definition upper_letters :: string where
  "upper_letters = ''ABCDEFGHIJKLMNOPQRSTUVWXYZ''"

definition lower_letters :: string where
  "lower_letters = ''abcdefghijklmnopqrstuvwxyz''"

definition digit_chars :: string where
  "digit_chars = ''0123456789''"

text \<open>\<^verbatim>\<open>str.isspace\<close> on ASCII: tab, line feed, vertical tab, form feed, carriage
  return, the four separators 0x1C to 0x1F, and the space.\<close>

definition is_space :: "char \<Rightarrow> bool" where
  "is_space c = (c \<in> set [CHR 0x09, CHR 0x0A, CHR 0x0B, CHR 0x0C, CHR 0x0D,
                            CHR 0x1C, CHR 0x1D, CHR 0x1E, CHR 0x1F, CHR 0x20])"

definition is_alpha :: "char \<Rightarrow> bool" where
  "is_alpha c = (c \<in> set (upper_letters @ lower_letters))"

definition is_digit :: "char \<Rightarrow> bool" where
  "is_digit c = (c \<in> set digit_chars)"

text \<open>The class \<^verbatim>\<open>\w\<close>: letters, digits and the underscore.\<close>

definition is_word :: "char \<Rightarrow> bool" where
  "is_word c = (is_alpha c \<or> is_digit c \<or> c = CHR ''_'')"

definition lower_char :: "char \<Rightarrow> char" where
  "lower_char c = (case map_of (zip upper_letters lower_letters) c of
                     Some l \<Rightarrow> l | None \<Rightarrow> c)"

definition upper_char :: "char \<Rightarrow> char" where
  "upper_char c = (case map_of (zip lower_letters upper_letters) c of
                     Some u \<Rightarrow> u | None \<Rightarrow> c)"

text \<open>\<^verbatim>\<open>s.lower()\<close>\<close>

definition lower :: "string \<Rightarrow> string" where
  "lower s = map lower_char s"

text \<open>\<^verbatim>\<open>s.startswith(p)\<close>\<close>

fun startswith :: "string \<Rightarrow> string \<Rightarrow> bool" where
  "startswith s [] = True"
| "startswith [] (p # ps) = False"
| "startswith (c # cs) (p # ps) = (c = p \<and> startswith cs ps)"

text \<open>\<^verbatim>\<open>sub in s\<close> on strings: \<open>sub\<close> occurs in \<open>s\<close> as a contiguous run.\<close>

fun contains :: "string \<Rightarrow> string \<Rightarrow> bool" where
  "contains [] sub = (sub = [])"
| "contains (c # cs) sub = (startswith (c # cs) sub \<or> contains cs sub)"

text \<open>\<^verbatim>\<open>s.split()\<close>: the maximal runs of characters that are not whitespace. The
  first argument is the word being read.\<close>

fun split_from :: "string \<Rightarrow> string \<Rightarrow> string list" where
  "split_from w [] = (if w = [] then [] else [w])"
| "split_from w (c # cs) =
     (if is_space c then (if w = [] then split_from [] cs else w # split_from [] cs)
      else split_from (w @ [c]) cs)"

definition split :: "string \<Rightarrow> string list" where
  "split s = split_from [] s"

text \<open>\<^verbatim>\<open>sep.join(xs)\<close>\<close>

fun join :: "string \<Rightarrow> string list \<Rightarrow> string" where
  "join sep [] = []"
| "join sep [x] = x"
| "join sep (x # y # ys) = x @ sep @ join sep (y # ys)"

text \<open>\<^verbatim>\<open>s.strip()\<close>\<close>

definition strip :: "string \<Rightarrow> string" where
  "strip s = rev (dropWhile is_space (rev (dropWhile is_space s)))"

text \<open>\<^verbatim>\<open>s.capitalize()\<close>: the first character in upper case, the others in lower case.\<close>

fun capitalize :: "string \<Rightarrow> string" where
  "capitalize [] = []"
| "capitalize (c # cs) = upper_char c # map lower_char cs"

text \<open>\<^verbatim>\<open>s.title()\<close>: a letter that follows a letter is in lower case, any other letter
  in upper case. The flag says whether the previous character was a letter.\<close>

fun title_from :: "bool \<Rightarrow> string \<Rightarrow> string" where
  "title_from prev [] = []"
| "title_from prev (c # cs) =
     (if is_alpha c then (if prev then lower_char c else upper_char c) # title_from True cs
      else c # title_from False cs)"

definition title_case :: "string \<Rightarrow> string" where
  "title_case s = title_from False s"

text \<open>Python truthiness of a string and of a list: not empty.\<close>

definition truthy :: "'a list \<Rightarrow> bool" where
  "truthy xs = (xs \<noteq> [])"

text \<open>\<^verbatim>\<open>d.get(k, default)\<close> on a field of a record that stands for a dictionary.\<close>

definition dget :: "'a option \<Rightarrow> 'a \<Rightarrow> 'a" where
  "dget field dflt = (case field of None \<Rightarrow> dflt | Some v \<Rightarrow> v)"

text \<open>\<^verbatim>\<open>any(w in s for w in words)\<close>\<close>

definition any_in :: "string list \<Rightarrow> string \<Rightarrow> bool" where
  "any_in words s = list_ex (contains s) words"

text \<open>The decimal digits of a natural number, and the format \<^verbatim>\<open>{i:03d}\<close>: at least
  three digits, padded with zeros on the left.\<close>

definition digit_char :: "nat \<Rightarrow> char" where
  "digit_char d = digit_chars ! (d mod 10)"

function decimal :: "nat \<Rightarrow> string" where
  "decimal n = (if n < 10 then [digit_char n] else decimal (n div 10) @ [digit_char (n mod 10)])"
  by pat_completeness auto
termination
  by (relation "measure id") auto

declare decimal.simps [simp del]

definition format_03d :: "nat \<Rightarrow> string" where
  "format_03d n = replicate (3 - length (decimal n)) (CHR ''0'') @ decimal n"

section \<open>learning\_formatter.py: the data\<close>

text \<open>A debugging experience and the session data, as \<^verbatim>\<open>session_analyzer\<close> and the
  capture tools build them. \<open>other_keys\<close> holds the names of the keys that the formatter
  never reads (\<^verbatim>\<open>session_id\<close>, \<^verbatim>\<open>tags\<close>): they count for the truth value of the
  dictionary only.\<close>

record experience =
  problem_description :: "string option"
  investigation_steps :: "string list option"
  solution_applied :: "string option"
  outcome :: "string option"

record session_data =
  debugging_experiences :: "experience list option"
  timestamp :: "string option"
  project_context :: "string option"
  other_keys :: "string list"

text \<open>The sections of a learning entry.\<close>

record situation =
  goal :: "string option"
  action_taken :: "string option"
  expected_result :: "string option"
  actual_result :: "string option"

record debug_journey =
  initial_hypothesis :: "string option"
  investigation_path :: "string list option"
  dead_ends :: "string list option"

record resolution =
  root_cause :: "string option"
  solution :: "string option"
  verification :: "string option"

record knowledge_synthesis =
  domain_principle :: "string option"
  universal_principle :: "string option"
  pattern_recognition :: "string option"
  mental_model :: "string option"

text \<open>The bullets of a synopsis and the embedding fields are dictionaries from strings to
  strings, kept in insertion order.\<close>

type_synonym str_dict = "(string \<times> string) list"

text \<open>A synopsis: the keys \<^verbatim>\<open>title\<close> and \<^verbatim>\<open>bullets\<close>.\<close>

record synopsis =
  syn_title :: "string option"
  syn_bullets :: "str_dict option"

text \<open>A learning entry. The field \<open>e_k\<close> is the key \<^verbatim>\<open>k\<close> of the dictionary.\<close>

record learning_entry =
  e_id :: "string option"
  e_timestamp :: "string option"
  e_trigger :: "string option"
  e_situation :: "situation option"
  e_debug_journey :: "debug_journey option"
  e_resolution :: "resolution option"
  e_knowledge_synthesis :: "knowledge_synthesis option"
  e_version :: "int option"
  e_synopsis :: "synopsis option"
  e_title :: "string option"
  e_embedding_fields :: "str_dict option"

text \<open>The keys of a learning entry, in the order in which
  \<^verbatim>\<open>_create_single_learning_entry\<close> inserts them.\<close>

definition key_if :: "'a option \<Rightarrow> string \<Rightarrow> string list" where
  "key_if field k = (case field of None \<Rightarrow> [] | Some v \<Rightarrow> [k])"

definition entry_keys :: "learning_entry \<Rightarrow> string list" where
  "entry_keys e =
     key_if (e_id e) ''id'' @ key_if (e_timestamp e) ''timestamp'' @
     key_if (e_trigger e) ''trigger'' @ key_if (e_situation e) ''situation'' @
     key_if (e_debug_journey e) ''debug_journey'' @ key_if (e_resolution e) ''resolution'' @
     key_if (e_knowledge_synthesis e) ''knowledge_synthesis'' @
     key_if (e_version e) ''version'' @ key_if (e_synopsis e) ''synopsis'' @
     key_if (e_title e) ''title'' @ key_if (e_embedding_fields e) ''embedding_fields''"

text \<open>The empty dictionary \<^verbatim>\<open>{}\<close> at each schema.\<close>

definition empty_situation :: situation where
  "empty_situation =
     \<lparr>goal = None, action_taken = None, expected_result = None, actual_result = None\<rparr>"

definition empty_debug_journey :: debug_journey where
  "empty_debug_journey =
     \<lparr>initial_hypothesis = None, investigation_path = None, dead_ends = None\<rparr>"

definition empty_resolution :: resolution where
  "empty_resolution = \<lparr>root_cause = None, solution = None, verification = None\<rparr>"

definition empty_knowledge_synthesis :: knowledge_synthesis where
  "empty_knowledge_synthesis =
     \<lparr>domain_principle = None, universal_principle = None, pattern_recognition = None,
      mental_model = None\<rparr>"

text \<open>The truth value of the session data: a dictionary is true when it has a key.\<close>

definition session_truthy :: "session_data \<Rightarrow> bool" where
  "session_truthy sd =
     (key_if (debugging_experiences sd) ''debugging_experiences'' @
      key_if (timestamp sd) ''timestamp'' @
      key_if (project_context sd) ''project_context'' @ other_keys sd \<noteq> [])"

text \<open>\<^verbatim>\<open>b.get(k, default)\<close> and \<^verbatim>\<open>b[k]\<close> on a dictionary of strings. \<open>getitem\<close> is
  only applied to a key taken from the keys of \<open>b\<close>, where Python cannot raise
  \<^verbatim>\<open>KeyError\<close>.\<close>

definition bget :: "str_dict \<Rightarrow> string \<Rightarrow> string \<Rightarrow> string" where
  "bget b k dflt = (case map_of b k of None \<Rightarrow> dflt | Some v \<Rightarrow> v)"

definition getitem :: "str_dict \<Rightarrow> string \<Rightarrow> string" where
  "getitem b k = (case map_of b k of None \<Rightarrow> [] | Some v \<Rightarrow> v)"

text \<open>
  The exceptions that the modules raise or handle, each with its message (a \<^verbatim>\<open>KeyError\<close>
  with its key). \<open>OtherError type_name msg\<close> is an exception of another class derived
  from \<^verbatim>\<open>Exception\<close>, such as \<^verbatim>\<open>RuntimeError\<close> or \<^verbatim>\<open>UnicodeDecodeError\<close>.
\<close>

datatype py_error =
    ValueError string | KeyError string | AttributeError string | TypeError string
  | JSONDecodeError string | Exception string | OtherError string string

section \<open>learning\_formatter.py: the helper functions\<close>

definition determine_trigger_type :: "string \<Rightarrow> string" where
  "determine_trigger_type problem_desc =
     (let problem_lower = lower problem_desc in
      if any_in [''error'', ''exception'', ''failed'', ''crash'', ''bug''] problem_lower
        then ''error''
      else if any_in [''slow'', ''performance'', ''timeout'', ''lag''] problem_lower
        then ''performance''
      else if any_in [''unexpected'', ''weird'', ''strange'', ''odd''] problem_lower
        then ''investigation''
      else if any_in [''optimization'', ''improvement'', ''enhancement''] problem_lower
        then ''optimization''
      else ''investigation'')"

definition infer_goal_from_problem :: "string \<Rightarrow> string" where
  "infer_goal_from_problem problem_desc =
     (if contains (lower problem_desc) ''project''
        then ''Set up and configure project environment properly''
      else if contains (lower problem_desc) ''install'' \<or>
              contains (lower problem_desc) ''dependencies''
        then ''Install and manage project dependencies correctly''
      else if contains (lower problem_desc) ''import'' \<or>
              contains (lower problem_desc) ''module''
        then ''Import and use modules correctly in the application''
      else ''Resolve the identified issue and restore expected functionality'')"

definition extract_action_taken :: "string list \<Rightarrow> string" where
  "extract_action_taken steps =
     (case steps of
        [] \<Rightarrow> ''Initiated systematic debugging process''
      | first_step # rest \<Rightarrow>
          if contains (lower first_step) ''check''
            then ''Investigated the issue by '' @ lower first_step
          else ''Began debugging by '' @ lower first_step)"

definition infer_expected_vs_actual :: "string \<Rightarrow> string \<Rightarrow> string \<times> string" where
  "infer_expected_vs_actual problem_desc outc =
     (if contains (lower problem_desc) ''missing'' \<or>
         contains (lower problem_desc) ''not found''
        then (''Required files/modules should be accessible and functional'',
              ''Files/modules were not found or not accessible from current context'')
      else if contains (lower problem_desc) ''dependencies''
        then (''All dependencies should be installed and available'',
              ''Dependencies were not installed or not available'')
      else (''System should function as intended without errors'',
            if truthy problem_desc then problem_desc
            else ''Encountered unexpected behavior''))"

definition extract_initial_hypothesis :: "string list \<Rightarrow> string" where
  "extract_initial_hypothesis steps =
     (case steps of
        [] \<Rightarrow> ''Initial hypothesis based on error symptoms and common patterns''
      | first_step # rest \<Rightarrow>
          if contains (lower first_step) ''check''
            then ''Initial assumption was related to '' @ lower first_step
          else ''First hypothesis: '' @ first_step)"

text \<open>\<^verbatim>\<open>re.sub(r'^(step \d+:?|then|next)\s*', '', step, flags=re.IGNORECASE)\<close>: at the
  start of the string, the first alternative that matches (\<^verbatim>\<open>step\<close>, a space, digits
  and an optional colon; \<^verbatim>\<open>then\<close>; \<^verbatim>\<open>next\<close>, in any case of the letters) is
  removed with the whitespace after it. \<open>match_step_prefix\<close> gives what follows the group.\<close>

definition match_step_prefix :: "string \<Rightarrow> string option" where
  "match_step_prefix step =
     (if startswith (lower step) ''step '' \<and> list_ex is_digit (take 1 (drop 5 step)) then
        (let after_digits = dropWhile is_digit (drop 5 step) in
         Some (if startswith after_digits '':'' then drop 1 after_digits else after_digits))
      else if startswith (lower step) ''then'' then Some (drop 4 step)
      else if startswith (lower step) ''next'' then Some (drop 4 step)
      else None)"

definition sub_step_prefix :: "string \<Rightarrow> string" where
  "sub_step_prefix step =
     (case match_step_prefix step of
        None \<Rightarrow> step
      | Some after \<Rightarrow> dropWhile is_space after)"

fun clean_investigation_steps_loop :: "string list \<Rightarrow> string list" where
  "clean_investigation_steps_loop [] = []"
| "clean_investigation_steps_loop (step # steps) =
     (let cleaned = strip (sub_step_prefix step) in
      if truthy cleaned then capitalize cleaned # clean_investigation_steps_loop steps
      else clean_investigation_steps_loop steps)"

definition clean_investigation_steps :: "string list \<Rightarrow> string list" where
  "clean_investigation_steps steps =
     (let cleaned_steps = clean_investigation_steps_loop steps in
      if truthy cleaned_steps then cleaned_steps
      else [''Analyzed the problem systematically''])"

fun identify_dead_ends_loop :: "string list \<Rightarrow> string list \<Rightarrow> string list" where
  "identify_dead_ends_loop solution_keywords [] = []"
| "identify_dead_ends_loop solution_keywords (step # steps) =
     (let step_lower = lower step in
      if \<not> any_in solution_keywords step_lower \<and>
         any_in [''tried'', ''attempted'', ''checked'', ''tested''] step_lower
        then (''Investigated '' @ lower step @ '' but this wasn'' @ [CHR 0x27] @
              ''t the root cause'') # identify_dead_ends_loop solution_keywords steps
      else identify_dead_ends_loop solution_keywords steps)"

definition identify_dead_ends :: "string list \<Rightarrow> string \<Rightarrow> string list" where
  "identify_dead_ends steps sol =
     (let solution_keywords = (if truthy sol then split (lower sol) else []);
          dead = identify_dead_ends_loop solution_keywords (butlast steps) in
      if truthy dead then dead
      else [''Initial troubleshooting approaches required refinement''])"

definition infer_root_cause :: "string \<Rightarrow> string \<Rightarrow> string" where
  "infer_root_cause problem_desc sol =
     (if contains (lower sol) ''virtual environment''
        then ''Missing or incorrectly configured virtual environment''
      else if contains (lower sol) ''install''
        then ''Missing dependencies or incorrect installation''
      else if contains (lower sol) ''path'' \<or> contains (lower sol) ''directory''
        then ''Incorrect working directory or path configuration''
      else if contains (lower sol) ''permissions''
        then ''File or directory permission issues''
      else ''Root cause addressed by: '' @ sol)"

definition extract_verification_method :: "string \<Rightarrow> string" where
  "extract_verification_method outc =
     (if contains (lower outc) ''successfully''
        then ''Confirmed resolution by testing the previously failing scenario''
      else if contains (lower outc) ''resolved''
        then ''Verified fix by reproducing original conditions''
      else ''Validation method: '' @ outc)"

definition extract_domain_principle :: "string \<Rightarrow> string \<Rightarrow> string" where
  "extract_domain_principle problem_desc sol =
     (let combined = lower (problem_desc @ '' '' @ sol) in
      if contains combined ''python'' \<or> contains combined ''pip'' \<or>
         contains combined ''venv'' \<or> contains combined ''import'' \<or>
         contains combined ''module'' \<or> contains combined ''.py''
        then ''Python import system requires proper working directory and module path configuration''
      else if contains combined ''javascript'' \<or> contains combined ''node'' \<or>
              contains combined ''npm''
        then ''JavaScript projects require proper dependency installation via npm/yarn''
      else if contains combined ''git''
        then ''Version control operations require understanding of Git workflow and commands''
      else ''Technology-specific configuration and setup patterns are crucial for success'')"

definition extract_universal_principle :: "string list \<Rightarrow> string \<Rightarrow> string" where
  "extract_universal_principle steps sol =
     (let steps_text = lower (join '' '' steps) in
      if contains steps_text ''working directory'' \<or> contains steps_text ''context'' \<or>
         contains steps_text ''path''
        then ''Understanding the execution context is essential when resolving import or path-related issues''
      else if contains steps_text ''systematic'' \<or> length steps > 3
        then ''Systematic investigation yields better debugging outcomes than ad hoc troubleshooting''
      else if contains steps_text ''check''
        then ''Verify assumptions before proceeding with complex solutions''
      else ''Understanding the problem context is essential before applying solutions'')"

definition extract_pattern_recognition :: "string \<Rightarrow> string \<Rightarrow> string" where
  "extract_pattern_recognition problem_desc sol =
     (if contains (lower problem_desc) ''not found''
        then [CHR 0x27] @ ''Not found'' @ [CHR 0x27] @
             '' errors often indicate path, environment, or dependency issues''
      else if contains (lower problem_desc) ''missing''
        then ''Missing component errors suggest setup or configuration problems''
      else ''Error patterns provide clues about the category and likely solutions'')"

definition extract_mental_model :: "string \<Rightarrow> string \<Rightarrow> string list \<Rightarrow> string" where
  "extract_mental_model problem_desc sol steps =
     (if contains (lower sol) ''environment''
        then ''Development environments are isolated contexts with their own dependencies''
      else if contains (lower sol) ''path''
        then ''File system navigation and context matter for resource accessibility''
      else ''Debugging is a systematic process of hypothesis testing and validation'')"

section \<open>learning\_formatter.py: the sections of a learning entry\<close>

definition extract_situation_details :: "string \<Rightarrow> string list \<Rightarrow> string \<Rightarrow> situation" where
  "extract_situation_details problem_desc steps outc =
     (let goal_text = infer_goal_from_problem problem_desc;
          action = extract_action_taken steps;
          (expected, actual) = infer_expected_vs_actual problem_desc outc in
      \<lparr>goal = Some goal_text, action_taken = Some action,
       expected_result = Some expected, actual_result = Some actual\<rparr>)"

definition extract_debug_journey :: "string list \<Rightarrow> string \<Rightarrow> debug_journey" where
  "extract_debug_journey steps sol =
     \<lparr>initial_hypothesis = Some (extract_initial_hypothesis steps),
      investigation_path = Some (clean_investigation_steps steps),
      dead_ends = Some (identify_dead_ends steps sol)\<rparr>"

definition extract_resolution :: "string \<Rightarrow> string \<Rightarrow> string \<Rightarrow> resolution" where
  "extract_resolution sol outc problem_desc =
     (let solution_text = (if truthy sol then sol
                           else ''Applied systematic debugging approach'') in
      \<lparr>root_cause = Some (infer_root_cause problem_desc sol),
       solution = Some solution_text,
       verification = Some (extract_verification_method outc)\<rparr>)"

definition extract_knowledge_synthesis ::
    "string \<Rightarrow> string \<Rightarrow> string list \<Rightarrow> knowledge_synthesis" where
  "extract_knowledge_synthesis problem_desc sol steps =
     \<lparr>domain_principle = Some (extract_domain_principle problem_desc sol),
      universal_principle = Some (extract_universal_principle steps sol),
      pattern_recognition = Some (extract_pattern_recognition problem_desc sol),
      mental_model = Some (extract_mental_model problem_desc sol steps)\<rparr>"

section \<open>learning\_formatter.py: SynopsisGenerator\<close>

text \<open>The generator holds a vocabulary that no method reads or writes, so its methods are
  functions. \<^verbatim>\<open>str(entry)\<close>, the text that Python prints for the whole dictionary, is
  the parameter \<open>entry_str\<close>.\<close>

datatype synopsis_generator = SynopsisGenerator

definition infer_domain_from_entry ::
    "(learning_entry \<Rightarrow> string) \<Rightarrow> learning_entry \<Rightarrow> string" where
  "infer_domain_from_entry entry_str entry =
     (let content_text = lower (entry_str entry) in
      if contains content_text ''python'' \<or> contains content_text ''import'' then ''Python''
      else if contains content_text ''javascript'' \<or> contains content_text ''node''
        then ''JavaScript''
      else if contains content_text ''sql'' \<or> contains content_text ''database''
        then ''Database''
      else ''System'')"

definition generate_title :: "(learning_entry \<Rightarrow> string) \<Rightarrow> learning_entry \<Rightarrow> string" where
  "generate_title entry_str entry =
     (let goal_text = dget (goal (dget (e_situation entry) empty_situation)) [];
          actual = dget (actual_result (dget (e_situation entry) empty_situation)) [];
          t = (if contains (lower actual) ''error'' \<or> contains (lower actual) ''failed''
               then title_case (infer_domain_from_entry entry_str entry) @ '' Error: '' @
                    take 60 actual
               else ''Resolve: '' @ take 70 goal_text) in
      if length t > 120 then take 117 t @ ''...'' else t)"

text \<open>\<^verbatim>\<open>re.sub(r'[^\w\s-]', '', problem_desc)\<close> keeps the word characters, the
  whitespace and the hyphen.\<close>

definition clean_description :: "string \<Rightarrow> string" where
  "clean_description problem_desc =
     filter (\<lambda>c. is_word c \<or> is_space c \<or> c = CHR ''-'') problem_desc"

text \<open>The loop of \<^verbatim>\<open>_generate_title_from_problem\<close>: words are added while the title
  stays within 117 characters; the first word that does not fit ends the loop.\<close>

fun title_words_loop :: "string \<Rightarrow> string list \<Rightarrow> string" where
  "title_words_loop t [] = t"
| "title_words_loop t (word # words) =
     (if length (t @ '' '' @ word) \<le> 117
        then title_words_loop (t @ (if truthy t then '' '' @ word else word)) words
      else t)"

definition generate_title_from_problem :: "string \<Rightarrow> string" where
  "generate_title_from_problem problem_desc =
     (if \<not> truthy problem_desc then ''Debugging Session Learning''
      else
        (let clean_desc = clean_description problem_desc in
         if length clean_desc \<le> 120 then clean_desc
         else
           (let t = title_words_loop [] (split clean_desc) in
            if length clean_desc > 120 then t @ ''...'' else t)))"

definition format_context_bullet :: "situation \<Rightarrow> debug_journey \<Rightarrow> string" where
  "format_context_bullet situation journey =
     (let part1 = (if truthy (dget (action_taken situation) [])
                   then [''While '' @ lower (dget (action_taken situation) [])] else []);
          goal_text = lower (dget (goal situation) []);
          context_parts = part1 @
            [if contains goal_text ''python'' \<or> contains goal_text ''import''
               then ''in Python development environment''
             else if contains goal_text ''javascript'' \<or> contains goal_text ''node''
               then ''in JavaScript/Node.js environment''
             else if contains goal_text ''database'' \<or> contains goal_text ''sql''
               then ''in database environment''
             else ''in development environment''] in
      if truthy context_parts then join '' '' context_parts
      else ''Development environment context'')"

definition format_applicability_bullet :: "knowledge_synthesis \<Rightarrow> string" where
  "format_applicability_bullet ks =
     (let pattern = dget (pattern_recognition ks) [] in
      if truthy pattern \<and> contains (lower pattern) ''when'' then pattern
      else
        (let principle = dget (domain_principle ks) [] in
         if truthy principle then ''When encountering similar '' @ lower principle
         else ''When facing similar debugging challenges''))"

definition generate_bullets :: "learning_entry \<Rightarrow> str_dict" where
  "generate_bullets entry =
     (let situation = dget (e_situation entry) empty_situation;
          journey = dget (e_debug_journey entry) empty_debug_journey;
          res = dget (e_resolution entry) empty_resolution;
          ks = dget (e_knowledge_synthesis entry) empty_knowledge_synthesis in
      [(''symptoms'', dget (actual_result situation) ''Issue encountered''),
       (''context'', format_context_bullet situation journey),
       (''root_cause'', dget (root_cause res) ''Root cause analysis needed''),
       (''fix'', dget (solution res) ''Solution implementation needed''),
       (''applies_when'', format_applicability_bullet ks)])"

text \<open>\<^verbatim>\<open>_expand_bullets\<close>: one pass over the keys of the copy; \<^verbatim>\<open>expanded[key] += s\<close>
  rewrites the value at a key of the dictionary in place.\<close>

definition expand_key :: "int \<Rightarrow> string \<Rightarrow> str_dict \<Rightarrow> str_dict" where
  "expand_key words_per_bullet key expanded =
     (if words_per_bullet > 0 then
        (if key = ''symptoms''
           then AList.map_entry key (\<lambda>v. v @ '' with detailed error context'') expanded
         else if key = ''context''
           then AList.map_entry key (\<lambda>v. v @ '' during development workflow'') expanded
         else if key = ''root_cause''
           then AList.map_entry key (\<lambda>v. v @ '' through systematic analysis'') expanded
         else if key = ''fix''
           then AList.map_entry key (\<lambda>v. v @ '' with verification steps'') expanded
         else if key = ''applies_when''
           then AList.map_entry key (\<lambda>v. v @ '' in similar scenarios'') expanded
         else expanded)
      else expanded)"

definition expand_bullets :: "str_dict \<Rightarrow> int \<Rightarrow> str_dict" where
  "expand_bullets bullets words_needed =
     (let keys = map fst bullets;
          words_per_bullet = (if truthy keys then words_needed div int (length keys) else 0) in
      fold (expand_key words_per_bullet) keys bullets)"

text \<open>\<^verbatim>\<open>max(compressed.keys(), key=lambda k: len(compressed[k].split()))\<close>: the first key
  whose value has the most words; \<^verbatim>\<open>max\<close> raises \<^verbatim>\<open>ValueError\<close> on no keys.\<close>

fun max_by :: "('a \<Rightarrow> nat) \<Rightarrow> 'a \<Rightarrow> 'a list \<Rightarrow> 'a" where
  "max_by f best [] = best"
| "max_by f best (x # xs) = (if f x > f best then max_by f x xs else max_by f best xs)"

definition longest_key :: "str_dict \<Rightarrow> py_error + string" where
  "longest_key compressed =
     (case map fst compressed of
        [] \<Rightarrow> Inl (ValueError ''max() arg is an empty sequence'')
      | k # ks \<Rightarrow> Inr (max_by (\<lambda>k. length (split (getitem compressed k))) k ks))"

text \<open>The loop of \<^verbatim>\<open>_compress_bullets\<close>: while words remain to be removed, the last word
  of the longest bullet is dropped; a longest bullet of five words or fewer ends the loop.\<close>

function compress_loop :: "str_dict \<Rightarrow> int \<Rightarrow> py_error + str_dict" where
  "compress_loop compressed words_to_remove =
     (if words_to_remove > 0 then
        (case longest_key compressed of
           Inl err \<Rightarrow> Inl err
         | Inr key \<Rightarrow>
             (let words = split (getitem compressed key) in
              if length words > 5
                then compress_loop (AList.update key (join '' '' (butlast words)) compressed)
                                   (words_to_remove - 1)
              else Inr compressed))
      else Inr compressed)"
  by pat_completeness auto
termination
  by (relation "measure (\<lambda>(compressed, words_to_remove). nat words_to_remove)") auto

declare compress_loop.simps [simp del]

definition compress_bullets :: "str_dict \<Rightarrow> int \<Rightarrow> py_error + str_dict" where
  "compress_bullets bullets words_to_remove = compress_loop bullets words_to_remove"

definition adjust_word_count :: "str_dict \<Rightarrow> py_error + str_dict" where
  "adjust_word_count bullets =
     (let total_text = join '' '' (map snd bullets);
          word_count = length (split total_text) in
      if word_count < 120 then Inr (expand_bullets bullets (120 - int word_count))
      else if word_count > 200 then compress_bullets bullets (int word_count - 200)
      else Inr bullets)"

definition generate_synopsis ::
    "(learning_entry \<Rightarrow> string) \<Rightarrow> learning_entry \<Rightarrow> py_error + synopsis" where
  "generate_synopsis entry_str entry =
     (let t = generate_title entry_str entry;
          bullets = generate_bullets entry in
      case adjust_word_count bullets of
        Inl err \<Rightarrow> Inl err
      | Inr adjusted \<Rightarrow> Inr \<lparr>syn_title = Some t, syn_bullets = Some adjusted\<rparr>)"

definition extract_symptoms :: "experience \<Rightarrow> string" where
  "extract_symptoms exp =
     (let problem_desc = dget (problem_description exp) [] in
      if contains (lower problem_desc) ''error'' then ''Encountered '' @ lower problem_desc
      else if truthy problem_desc then problem_desc
      else ''Issue encountered during operation'')"

definition extract_context :: "experience \<Rightarrow> session_data \<Rightarrow> string" where
  "extract_context exp sd =
     (let context_name = dget (project_context sd) [] in
      if truthy context_name then ''Working in '' @ context_name @ '' environment''
      else
        (let problem_desc = lower (dget (problem_description exp) []) in
         if contains problem_desc ''python'' \<or> contains problem_desc ''import''
           then ''Python development environment''
         else if contains problem_desc ''javascript'' \<or> contains problem_desc ''node''
           then ''JavaScript/Node.js environment''
         else ''Development environment''))"

definition extract_root_cause_from_experience :: "experience \<Rightarrow> string" where
  "extract_root_cause_from_experience exp =
     (let sol = dget (solution_applied exp) [] in
      if contains (lower sol) ''directory''
        then ''Working directory or path configuration issue''
      else if contains (lower sol) ''install''
        then ''Missing or incorrect dependency installation''
      else if contains (lower sol) ''permission''
        then ''File or directory permission restriction''
      else ''Root cause identified through systematic debugging'')"

definition extract_fix :: "experience \<Rightarrow> string" where
  "extract_fix exp =
     (let sol = dget (solution_applied exp) [] in
      if truthy sol then
        (let action_verbs = [''use'', ''run'', ''install'', ''set'', ''configure'', ''change'',
                             ''add'', ''remove''] in
         if \<not> list_ex (startswith (lower sol)) action_verbs then ''Apply '' @ lower sol
         else sol)
      else ''Apply systematic debugging approach'')"

definition extract_applicability :: "experience \<Rightarrow> string" where
  "extract_applicability exp =
     (let problem_desc = lower (dget (problem_description exp) []) in
      if contains problem_desc ''not found''
        then ''When files exist but are not found by the system''
      else if contains problem_desc ''error'' \<and> contains problem_desc ''import''
        then ''When import statements fail despite proper installation''
      else if contains problem_desc ''permission''
        then ''When encountering file or directory access restrictions''
      else ''When facing similar configuration or environment issues'')"

definition create_default_synopsis :: synopsis where
  "create_default_synopsis =
     \<lparr>syn_title = Some ''Learning Session Analysis'',
      syn_bullets = Some
        [(''symptoms'', ''Issue encountered during session''),
         (''context'', ''Development environment''),
         (''root_cause'', ''Root cause analysis needed''),
         (''fix'', ''Solution implementation needed''),
         (''applies_when'', ''When facing similar challenges'')]\<rparr>"

definition create_synopsis_from_session_data :: "session_data \<Rightarrow> py_error + synopsis" where
  "create_synopsis_from_session_data sd =
     (case dget (debugging_experiences sd) [] of
        [] \<Rightarrow> Inr create_default_synopsis
      | exp # others \<Rightarrow>
          (let problem_desc = dget (problem_description exp) [];
               t = generate_title_from_problem problem_desc;
               bullets = [(''symptoms'', extract_symptoms exp),
                          (''context'', extract_context exp sd),
                          (''root_cause'', extract_root_cause_from_experience exp),
                          (''fix'', extract_fix exp),
                          (''applies_when'', extract_applicability exp)] in
           case adjust_word_count bullets of
             Inl err \<Rightarrow> Inl err
           | Inr adjusted \<Rightarrow> Inr \<lparr>syn_title = Some t, syn_bullets = Some adjusted\<rparr>))"

text \<open>\<^verbatim>\<open>synopsis["title"]\<close> raises \<^verbatim>\<open>KeyError\<close> on a synopsis without the key.\<close>

definition synopsis_title :: "synopsis \<Rightarrow> py_error + string" where
  "synopsis_title syn =
     (case syn_title syn of None \<Rightarrow> Inl (KeyError ''title'') | Some t \<Rightarrow> Inr t)"

definition format_synopsis_for_embedding :: "synopsis \<Rightarrow> string" where
  "format_synopsis_for_embedding syn =
     (let bullets = dget (syn_bullets syn) [] in
      ''Problem: '' @ bget bullets ''symptoms'' [] @
      '' Context: '' @ bget bullets ''context'' [] @
      '' Cause: '' @ bget bullets ''root_cause'' [] @
      '' Solution: '' @ bget bullets ''fix'' [] @
      '' Use: '' @ bget bullets ''applies_when'' [])"

text \<open>The separator of \<^verbatim>\<open>_format_debug_journey_for_embedding\<close> is a space, the arrow
  U+2192 (three bytes in UTF-8) and a space. The steps are a list, so the branch for a
  value that is not a list is not taken.\<close>

definition arrow_separator :: string where
  "arrow_separator = [CHR 0x20, CHR 0xE2, CHR 0x86, CHR 0x92, CHR 0x20]"

definition format_debug_journey_for_embedding :: "experience \<Rightarrow> string" where
  "format_debug_journey_for_embedding exp =
     (let steps = dget (investigation_steps exp) [] in join arrow_separator steps)"

definition extract_pattern_for_embedding :: "experience \<Rightarrow> string" where
  "extract_pattern_for_embedding exp =
     (let problem_desc = dget (problem_description exp) [];
          sol = dget (solution_applied exp) [] in
      if contains (lower problem_desc) ''file'' \<and> contains (lower sol) ''directory''
        then ''File accessibility issues often relate to working directory context''
      else if contains (lower problem_desc) ''import''
        then ''Import errors typically indicate path or environment configuration problems''
      else ''Debugging requires systematic hypothesis testing and validation'')"

definition create_default_embedding_content :: str_dict where
  "create_default_embedding_content =
     [(''title'', ''Learning Session Analysis''),
      (''synopsis'', ''Problem: Issue encountered Context: Development environment Cause: Analysis needed Solution: Implementation needed Use: Similar challenges''),
      (''debug_journey'', ''Systematic investigation approach''),
      (''root_cause'', ''Root cause analysis needed''),
      (''solution'', ''Solution implementation needed''),
      (''pattern_recognition'', ''Debugging requires systematic approach'')]"

definition extract_embedding_field_content :: "session_data \<Rightarrow> py_error + str_dict" where
  "extract_embedding_field_content sd =
     (case dget (debugging_experiences sd) [] of
        [] \<Rightarrow> Inr create_default_embedding_content
      | exp # others \<Rightarrow>
          (case create_synopsis_from_session_data sd of
             Inl err \<Rightarrow> Inl err
           | Inr syn \<Rightarrow>
               (case synopsis_title syn of
                  Inl err \<Rightarrow> Inl err
                | Inr t \<Rightarrow>
                    Inr [(''title'', t),
                         (''synopsis'', format_synopsis_for_embedding syn),
                         (''debug_journey'', format_debug_journey_for_embedding exp),
                         (''root_cause'',
                            dget (solution_applied exp) ''Root cause analysis needed''),
                         (''solution'',
                            dget (solution_applied exp) ''Solution implementation needed''),
                         (''pattern_recognition'', extract_pattern_for_embedding exp)])))"

section \<open>learning\_formatter.py: the learning entries\<close>

text \<open>\<^verbatim>\<open>_create_single_learning_entry\<close>. \<open>base_entry\<close> is the dictionary that the
  function builds first (its ``base entry structure''), before the keys of the second
  format are added. The session data and the generator are optional arguments; a generator
  object is true, and a dictionary is true when it has a key.\<close>

definition base_entry :: "experience \<Rightarrow> string \<Rightarrow> string \<Rightarrow> learning_entry" where
  "base_entry exp entry_id ts =
     (let problem_desc = dget (problem_description exp) [];
          steps = dget (investigation_steps exp) [];
          sol = dget (solution_applied exp) [];
          outc = dget (outcome exp) [] in
      \<lparr>e_id = Some entry_id,
       e_timestamp = Some ts,
       e_trigger = Some (determine_trigger_type problem_desc),
       e_situation = Some (extract_situation_details problem_desc steps outc),
       e_debug_journey = Some (extract_debug_journey steps sol),
       e_resolution = Some (extract_resolution sol outc problem_desc),
       e_knowledge_synthesis = Some (extract_knowledge_synthesis problem_desc sol steps),
       e_version = None, e_synopsis = None, e_title = None, e_embedding_fields = None\<rparr>)"

definition create_single_learning_entry ::
    "(learning_entry \<Rightarrow> string) \<Rightarrow> experience \<Rightarrow> string \<Rightarrow> string \<Rightarrow> session_data option \<Rightarrow>
     synopsis_generator option \<Rightarrow> py_error + learning_entry" where
  "create_single_learning_entry entry_str exp entry_id ts sd_opt generator =
     (let entry = base_entry exp entry_id ts;
          session = (case sd_opt of None \<Rightarrow> None
                     | Some sd \<Rightarrow> if session_truthy sd then Some sd else None) in
      case generator of
        None \<Rightarrow> Inr (entry\<lparr>e_version := Some 1\<rparr>)
      | Some gen \<Rightarrow>
          (let entry2 = entry\<lparr>e_version := Some 2\<rparr> in
           case (case session of
                   Some sd \<Rightarrow> create_synopsis_from_session_data sd
                 | None \<Rightarrow> generate_synopsis entry_str entry2) of
             Inl err \<Rightarrow> Inl err
           | Inr syn \<Rightarrow>
               (case synopsis_title syn of
                  Inl err \<Rightarrow> Inl err
                | Inr t \<Rightarrow>
                    (let entry3 = entry2\<lparr>e_synopsis := Some syn, e_title := Some t\<rparr> in
                     case session of
                       None \<Rightarrow> Inr entry3
                     | Some sd \<Rightarrow>
                         (case extract_embedding_field_content sd of
                            Inl err \<Rightarrow> Inl err
                          | Inr embedding \<Rightarrow>
                              Inr (entry3\<lparr>e_embedding_fields := Some embedding\<rparr>))))))"

text \<open>\<^verbatim>\<open>create_learning_entries\<close>. The loop numbers the experiences from 1. Each pass
  evaluates \<^verbatim>\<open>datetime.now().isoformat()\<close>, the default of the lookup of the timestamp,
  whether the key is there or not: \<open>now i\<close> is what the clock gives in pass \<open>i\<close>.\<close>

fun create_learning_entries_loop ::
    "(learning_entry \<Rightarrow> string) \<Rightarrow> (nat \<Rightarrow> string) \<Rightarrow> session_data \<Rightarrow>
     synopsis_generator option \<Rightarrow> nat \<Rightarrow> experience list \<Rightarrow> py_error + learning_entry list" where
  "create_learning_entries_loop entry_str now sd generator i [] = Inr []"
| "create_learning_entries_loop entry_str now sd generator i (exp # exps) =
     (case create_single_learning_entry entry_str exp (''L'' @ format_03d i)
             (dget (timestamp sd) (now i)) (Some sd) generator of
        Inl err \<Rightarrow> Inl err
      | Inr learning_entry \<Rightarrow>
          (case create_learning_entries_loop entry_str now sd generator (Suc i) exps of
             Inl err \<Rightarrow> Inl err
           | Inr learning_entries \<Rightarrow> Inr (learning_entry # learning_entries)))"

definition create_learning_entries ::
    "(learning_entry \<Rightarrow> string) \<Rightarrow> (nat \<Rightarrow> string) \<Rightarrow> session_data \<Rightarrow> bool \<Rightarrow>
     py_error + learning_entry list" where
  "create_learning_entries entry_str now sd use_v2_format =
     (let exps = dget (debugging_experiences sd) [];
          generator = (if use_v2_format then Some SynopsisGenerator else None) in
      create_learning_entries_loop entry_str now sd generator 1 exps)"

section \<open>crawler\_manager.py: CrawlerManager\<close>

text \<open>
  The class attribute \<^verbatim>\<open>_instance\<close> holds the one object of the class, \<open>None\<close> before
  the first \<^verbatim>\<open>CrawlerManager()\<close>. Objects are named by numbers: \<open>allocated\<close> counts the
  objects that \<^verbatim>\<open>super().__new__(cls)\<close> has made, and the next object gets that number.
\<close>

record crawler_class =
  cls_instance :: "nat option"
  allocated :: nat

text \<open>\<^verbatim>\<open>CrawlerManager()\<close>: \<^verbatim>\<open>__new__\<close>, and the \<^verbatim>\<open>__init__\<close> of \<^verbatim>\<open>object\<close>, which does
  nothing.\<close>

definition CrawlerManager_new :: "crawler_class \<Rightarrow> nat \<times> crawler_class" where
  "CrawlerManager_new cls =
     (case cls_instance cls of
        None \<Rightarrow> (allocated cls,
                 cls\<lparr>cls_instance := Some (allocated cls), allocated := Suc (allocated cls)\<rparr>)
      | Some obj \<Rightarrow> (obj, cls))"

text \<open>A number of evaluations of \<^verbatim>\<open>CrawlerManager()\<close>, one after the other, with what
  each returns.\<close>

fun repeat_new :: "nat \<Rightarrow> crawler_class \<Rightarrow> nat list \<times> crawler_class" where
  "repeat_new 0 cls = ([], cls)"
| "repeat_new (Suc n) cls =
     (let (obj, cls1) = CrawlerManager_new cls;
          (objs, cls2) = repeat_new n cls1 in
      (obj # objs, cls2))"

text \<open>
  The three browser configurations that \<^verbatim>\<open>initialize\<close> writes, and the two kinds of
  crawler. A crawler object carries the number of its creation: \<open>created\<close> counts the
  crawler objects that the manager has constructed, so two crawlers are the same object
  when they are equal.
\<close>

datatype browser_config = WindowsConfig | MinimalConfig | DefaultConfig

datatype crawler = AsyncWebCrawler nat browser_config | FallbackCrawler nat

record crawler_manager =
  crawler :: "crawler option"
  initialized :: bool
  using_fallback :: bool
  created :: nat

text \<open>
  What the world outside does during one run of \<^verbatim>\<open>initialize\<close>: whether crawl4ai was
  imported, whether the platform is Windows, and for each call into a library whether it
  raises an \<^verbatim>\<open>Exception\<close> (\<open>Some\<close> of its message) or returns (\<open>None\<close>).
\<close>

record crawl_env =
  crawl4ai_available :: bool
  is_windows :: bool
  windows_config_raises :: "string option"
  minimal_config_raises :: "string option"
  default_config_raises :: "string option"
  crawler_constructor_raises :: "string option"
  crawler_aenter_raises :: "string option"
  fallback_aenter_raises :: "string option"

text \<open>The choice of the browser configuration: on Windows the first configuration, and
  the minimal one when the first raises; elsewhere the comprehensive one.\<close>

definition make_browser_config :: "crawl_env \<Rightarrow> string + browser_config" where
  "make_browser_config env =
     (if is_windows env then
        (case windows_config_raises env of
           None \<Rightarrow> Inr WindowsConfig
         | Some selenium_e \<Rightarrow>
             (case minimal_config_raises env of
                None \<Rightarrow> Inr MinimalConfig
              | Some e \<Rightarrow> Inl e))
      else
        (case default_config_raises env of
           None \<Rightarrow> Inr DefaultConfig
         | Some e \<Rightarrow> Inl e))"

text \<open>The body of the outer \<^verbatim>\<open>try\<close> of \<^verbatim>\<open>initialize\<close>: \<open>Some e\<close> when it raises an
  exception with the message \<open>e\<close>, with the attributes as they are at that point.\<close>

definition try_crawl4ai :: "crawl_env \<Rightarrow> crawler_manager \<Rightarrow> string option \<times> crawler_manager" where
  "try_crawl4ai env m =
     (if \<not> crawl4ai_available env then (Some ''crawl4ai is not installed or available'', m)
      else
        (case make_browser_config env of
           Inl e \<Rightarrow> (Some e, m)
         | Inr config \<Rightarrow>
             (case crawler_constructor_raises env of
                Some e \<Rightarrow> (Some e, m)
              | None \<Rightarrow>
                  (let m1 = m\<lparr>crawler := Some (AsyncWebCrawler (created m) config),
                               created := Suc (created m)\<rparr> in
                   case crawler_aenter_raises env of
                     Some e \<Rightarrow> (Some e, m1)
                   | None \<Rightarrow> (None, m1\<lparr>initialized := True\<rparr>)))))"

definition initialize :: "crawl_env \<Rightarrow> crawler_manager \<Rightarrow> (py_error + unit) \<times> crawler_manager" where
  "initialize env m =
     (if initialized m \<and> crawler m \<noteq> None then (Inr (), m)
      else
        (case try_crawl4ai env m of
           (None, m1) \<Rightarrow> (Inr (), m1)
         | (Some e, m1) \<Rightarrow>
             (let m2 = m1\<lparr>crawler := Some (FallbackCrawler (created m1)),
                           created := Suc (created m1)\<rparr> in
              case fallback_aenter_raises env of
                None \<Rightarrow> (Inr (), m2\<lparr>initialized := True, using_fallback := True\<rparr>)
              | Some fallback_e \<Rightarrow>
                  (Inl (Exception (''Both Crawl4AI and fallback crawler failed: '' @ e @
                                   '', '' @ fallback_e)),
                   m2\<lparr>crawler := None, initialized := False, using_fallback := False\<rparr>))))"

definition get_crawler ::
    "crawl_env \<Rightarrow> crawler_manager \<Rightarrow> (py_error + crawler option) \<times> crawler_manager" where
  "get_crawler env m =
     (if \<not> initialized m \<or> crawler m = None then
        (case initialize env m of
           (Inl err, m1) \<Rightarrow> (Inl err, m1)
         | (Inr u, m1) \<Rightarrow> (Inr (crawler m1), m1))
      else (Inr (crawler m), m))"

definition cleanup :: "crawler_manager \<Rightarrow> crawler_manager" where
  "cleanup m =
     (if crawler m \<noteq> None \<and> initialized m then m\<lparr>crawler := None, initialized := False\<rparr>
      else m)"

text \<open>A number of calls of \<^verbatim>\<open>get_crawler\<close>, one after the other, each in its own world,
  with what each returns.\<close>

fun repeat_get_crawler ::
    "crawl_env list \<Rightarrow> crawler_manager \<Rightarrow> (py_error + crawler option) list \<times> crawler_manager" where
  "repeat_get_crawler [] m = ([], m)"
| "repeat_get_crawler (env # envs) m =
     (let (r, m1) = get_crawler env m;
          (rs, m2) = repeat_get_crawler envs m1 in
      (r # rs, m2))"

section \<open>mcp\_server.py: the JSON-RPC endpoint\<close>

text \<open>
  What \<^verbatim>\<open>json.loads\<close> returns: \<^verbatim>\<open>None\<close>, a boolean, an integer, a float, a string, a
  list or a dictionary with string keys. \<open>JFloat m e\<close> is the finite float \<open>m\<close> times two
  to the power \<open>e\<close>; \<open>JNonFinite\<close> holds the floats \<^verbatim>\<open>nan\<close>, \<^verbatim>\<open>inf\<close> and \<^verbatim>\<open>-inf\<close>, which
  \<^verbatim>\<open>json.loads\<close> reads from the texts \<^verbatim>\<open>NaN\<close>, \<^verbatim>\<open>Infinity\<close> and \<^verbatim>\<open>-Infinity\<close> although
  JSON has no such numbers.
\<close>

datatype nonfinite = NaN | PosInfinity | NegInfinity

datatype json =
    JNull | JBool bool | JInt int | JFloat int int | JNonFinite nonfinite | JStr string
  | JArr "json list" | JObj "(string \<times> json) list"

text \<open>The truth value of a Python value.\<close>

fun py_truthy :: "json \<Rightarrow> bool" where
  "py_truthy JNull = False"
| "py_truthy (JBool b) = b"
| "py_truthy (JInt n) = (n \<noteq> 0)"
| "py_truthy (JFloat m e) = (m \<noteq> 0)"
| "py_truthy (JNonFinite x) = True"
| "py_truthy (JStr s) = (s \<noteq> [])"
| "py_truthy (JArr xs) = (xs \<noteq> [])"
| "py_truthy (JObj items) = (items \<noteq> [])"

text \<open>\<^verbatim>\<open>type(v).__name__\<close>\<close>

fun py_type_name :: "json \<Rightarrow> string" where
  "py_type_name JNull = ''NoneType''"
| "py_type_name (JBool b) = ''bool''"
| "py_type_name (JInt n) = ''int''"
| "py_type_name (JFloat m e) = ''float''"
| "py_type_name (JNonFinite x) = ''float''"
| "py_type_name (JStr s) = ''str''"
| "py_type_name (JArr xs) = ''list''"
| "py_type_name (JObj items) = ''dict''"

text \<open>Whether a value holds, at any depth, a float that is not finite.\<close>

fun has_nonfinite :: "json \<Rightarrow> bool" where
  "has_nonfinite (JNonFinite x) = True"
| "has_nonfinite (JArr xs) = list_ex has_nonfinite xs"
| "has_nonfinite (JObj items) = list_ex (\<lambda>kv. has_nonfinite (snd kv)) items"
| "has_nonfinite v = False"

text \<open>\<^verbatim>\<open>d.get(k)\<close> and \<^verbatim>\<open>d.get(k, default)\<close> on the items of a dictionary.\<close>

definition obj_get :: "(string \<times> json) list \<Rightarrow> string \<Rightarrow> json \<Rightarrow> json" where
  "obj_get items k dflt = (case map_of items k of None \<Rightarrow> dflt | Some v \<Rightarrow> v)"

text \<open>\<^verbatim>\<open>type(e).__name__\<close> and \<^verbatim>\<open>str(e)\<close> of an exception. A \<^verbatim>\<open>KeyError\<close> shows its key
  in quotes.\<close>

fun error_type_name :: "py_error \<Rightarrow> string" where
  "error_type_name (ValueError msg) = ''ValueError''"
| "error_type_name (KeyError k) = ''KeyError''"
| "error_type_name (AttributeError msg) = ''AttributeError''"
| "error_type_name (TypeError msg) = ''TypeError''"
| "error_type_name (JSONDecodeError msg) = ''JSONDecodeError''"
| "error_type_name (Exception msg) = ''Exception''"
| "error_type_name (OtherError type_name msg) = type_name"

fun error_text :: "py_error \<Rightarrow> string" where
  "error_text (ValueError msg) = msg"
| "error_text (KeyError k) = [CHR 0x27] @ k @ [CHR 0x27]"
| "error_text (AttributeError msg) = msg"
| "error_text (TypeError msg) = msg"
| "error_text (JSONDecodeError msg) = msg"
| "error_text (Exception msg) = msg"
| "error_text (OtherError type_name msg) = msg"

text \<open>
  The Python runtime and the libraries, as far as the endpoint calls them:
  \<^item> \<open>json_loads\<close> is \<^verbatim>\<open>json.loads\<close>, which \<^verbatim>\<open>request.json()\<close> applies to the bytes of
    the body of the request and the endpoint to the string that a tool returns. On a
    text that is no JSON it raises \<^verbatim>\<open>JSONDecodeError\<close>; on bytes that are no UTF-8,
    UTF-16 or UTF-32 text it raises \<^verbatim>\<open>UnicodeDecodeError\<close>.
  \<^item> \<open>py_str\<close> is \<^verbatim>\<open>str\<close> on a value that is not a string.
  \<^item> \<open>kwargs_error method params\<close> is the text of the \<^verbatim>\<open>TypeError\<close> that the call
    \<^verbatim>\<open>tool_handler.fn(mock_ctx, **params)\<close> raises when \<open>params\<close> is not a dictionary.
  \<^item> \<open>await_error type_name\<close> is the text of the \<^verbatim>\<open>TypeError\<close> that \<^verbatim>\<open>await\<close> raises on
    an object of the named type that is not awaitable.
  \<^item> \<open>float_error\<close> is the text of the \<^verbatim>\<open>ValueError\<close> that \<^verbatim>\<open>json.dumps\<close> raises, with
    \<^verbatim>\<open>allow_nan=False\<close>, on a float that is not finite.
\<close>

record py_runtime =
  json_loads :: "string \<Rightarrow> py_error + json"
  py_str :: "json \<Rightarrow> string"
  kwargs_error :: "string \<Rightarrow> json \<Rightarrow> string"
  await_error :: "string \<Rightarrow> string"
  float_error :: string

record request =
  raw_body :: string

text \<open>
  What the function of a tool returns: a value as \<^verbatim>\<open>json.loads\<close> gives them, or another
  object; \<open>Unrenderable type_name e\<close> is an object of the named type, not a string, on
  which \<^verbatim>\<open>json.dumps\<close> raises \<open>e\<close> (a \<^verbatim>\<open>TypeError\<close> for an object that is not
  serialisable, such as a set).
\<close>

datatype returned = Value json | Unrenderable string py_error

fun returned_type_name :: "returned \<Rightarrow> string" where
  "returned_type_name (Value v) = py_type_name v"
| "returned_type_name (Unrenderable type_name e) = type_name"

text \<open>
  The function \<^verbatim>\<open>fn\<close> of a tool, run with keyword arguments (none for the call with the
  context only): it returns, or it raises an exception, which is a \<^verbatim>\<open>TypeError\<close> when the
  arguments do not match the signature. \<open>is_async\<close> tells whether the function is an
  \<^verbatim>\<open>async def\<close>, as the tools of the repository are: its call gives a coroutine, and the
  function runs when the coroutine is awaited. The call of a plain \<^verbatim>\<open>def\<close> runs the
  function, and what it returns is not awaitable.
\<close>

datatype outcome = Returns returned | Raises py_error

type_synonym kwargs = "(string \<times> json) list"

record tool =
  fn :: "kwargs \<Rightarrow> outcome"
  is_async :: bool

text \<open>The registry \<^verbatim>\<open>mcp._tool_manager._tools\<close>: names and tools in the order of
  registration.\<close>

type_synonym tools = "(string \<times> tool) list"

text \<open>The calls of tool functions that a request makes: the name and the keyword
  arguments of each.\<close>

type_synonym calls = "(string \<times> kwargs) list"

text \<open>The two shapes of the dictionaries that the endpoint answers with.\<close>

definition jsonrpc_result :: "json \<Rightarrow> json \<Rightarrow> json" where
  "jsonrpc_result request_id result =
     JObj [(''jsonrpc'', JStr ''2.0''), (''id'', request_id), (''result'', result)]"

definition jsonrpc_error :: "json \<Rightarrow> int \<Rightarrow> string \<Rightarrow> (string \<times> json) list \<Rightarrow> json" where
  "jsonrpc_error request_id code message data =
     JObj [(''jsonrpc'', JStr ''2.0''), (''id'', request_id),
           (''error'', JObj ([(''code'', JInt code), (''message'', JStr message)] @ data))]"

text \<open>
  \<^verbatim>\<open>JSONResponse(content)\<close>: the response renders its content when it is constructed,
  with \<^verbatim>\<open>json.dumps(content, allow_nan=False, ...)\<close>, which raises \<^verbatim>\<open>ValueError\<close> on a
  float that is not finite. The result is the content of the response. (The strings of
  the content are taken to be text that UTF-8 can encode.)
\<close>

definition JSONResponse :: "py_runtime \<Rightarrow> json \<Rightarrow> py_error + json" where
  "JSONResponse rt content =
     (if has_nonfinite content then Inl (ValueError (float_error rt)) else Inr content)"

text \<open>A value inside an f-string: a string as it is, any other value through \<^verbatim>\<open>str\<close>.\<close>

definition fmt :: "py_runtime \<Rightarrow> json \<Rightarrow> string" where
  "fmt rt v = (case v of JStr s \<Rightarrow> s | _ \<Rightarrow> py_str rt v)"

text \<open>\<^verbatim>\<open>json.loads(result) if isinstance(result, str) else result\<close>\<close>

definition unwrap_result :: "py_runtime \<Rightarrow> returned \<Rightarrow> py_error + returned" where
  "unwrap_result rt result =
     (case result of
        Value (JStr s) \<Rightarrow> (case json_loads rt s of Inl e \<Rightarrow> Inl e | Inr v \<Rightarrow> Inr (Value v))
      | _ \<Rightarrow> Inr result)"

text \<open>
  The response with the result, \<^verbatim>\<open>JSONResponse({"jsonrpc": "2.0", "id": request_id,
  "result": ...})\<close>. The rendering visits the id before the result.
\<close>

definition result_response :: "py_runtime \<Rightarrow> json \<Rightarrow> returned \<Rightarrow> py_error + json" where
  "result_response rt request_id result =
     (if has_nonfinite request_id then Inl (ValueError (float_error rt))
      else (case result of
              Value v \<Rightarrow> JSONResponse rt (jsonrpc_result request_id v)
            | Unrenderable type_name e \<Rightarrow> Inl e))"

text \<open>
  The body of the inner \<^verbatim>\<open>try\<close>: the call of the tool, awaited, and the response with
  its result; \<open>Inl\<close> is the exception raised there. Parameters that are true are passed as
  keyword arguments, which raises a \<^verbatim>\<open>TypeError\<close> before the call when they are not a
  dictionary. What a plain \<^verbatim>\<open>def\<close> returns cannot be awaited: \<^verbatim>\<open>await\<close> raises a
  \<^verbatim>\<open>TypeError\<close>, after the function has run.
\<close>

definition call_tool ::
    "py_runtime \<Rightarrow> string \<Rightarrow> tool \<Rightarrow> json \<Rightarrow> json \<Rightarrow> (py_error + json) \<times> calls" where
  "call_tool rt method tool_handler request_id params =
     (let awaited = (\<lambda>kw.
            (case fn tool_handler kw of
               Raises e \<Rightarrow> Inl e
             | Returns result \<Rightarrow>
                 if \<not> is_async tool_handler
                   then Inl (TypeError (await_error rt (returned_type_name result)))
                 else (case unwrap_result rt result of
                         Inl e \<Rightarrow> Inl e
                       | Inr r \<Rightarrow> result_response rt request_id r),
             [(method, kw)])) in
      if py_truthy params then
        (case params of
           JObj kw \<Rightarrow> awaited kw
         | _ \<Rightarrow> (Inl (TypeError (kwargs_error rt method params)), []))
      else awaited [])"

text \<open>
  The handlers of the inner \<^verbatim>\<open>try\<close>: \<^verbatim>\<open>except TypeError as te\<close>, then
  \<^verbatim>\<open>except Exception as tool_error\<close>. Each constructs a response.
\<close>

definition on_tool_error ::
    "py_runtime \<Rightarrow> string \<Rightarrow> json \<Rightarrow> json \<Rightarrow> py_error \<Rightarrow> py_error + json" where
  "on_tool_error rt method request_id params e =
     (case e of
        TypeError te \<Rightarrow>
          JSONResponse rt
            (jsonrpc_error request_id (-32602)
               (''Invalid params for '' @ method @ '': '' @ te)
               [(''data'', JObj [(''method'', JStr method), (''params'', params)])])
      | _ \<Rightarrow>
          JSONResponse rt
            (jsonrpc_error request_id (-32000)
               (''Tool execution failed: '' @ error_text e)
               [(''data'', JObj [(''method'', JStr method),
                                 (''error_type'', JStr (error_type_name e))])]))"

text \<open>The inner \<^verbatim>\<open>try\<close> statement. An exception raised inside a handler leaves it.\<close>

definition execute_tool ::
    "py_runtime \<Rightarrow> string \<Rightarrow> tool \<Rightarrow> json \<Rightarrow> json \<Rightarrow> (py_error + json) \<times> calls" where
  "execute_tool rt method tool_handler request_id params =
     (case call_tool rt method tool_handler request_id params of
        (Inr response, made) \<Rightarrow> (Inr response, made)
      | (Inl e, made) \<Rightarrow> (on_tool_error rt method request_id params e, made))"

text \<open>What is raised inside the outer \<^verbatim>\<open>try\<close>: an \<^verbatim>\<open>HTTPException\<close> of the validation,
  with its detail, or another exception.\<close>

datatype raised = HTTPException string | PyError py_error

definition reraise :: "py_error + json \<Rightarrow> raised + json" where
  "reraise r = (case r of Inl e \<Rightarrow> Inl (PyError e) | Inr response \<Rightarrow> Inr response)"

text \<open>
  The statements of the outer \<^verbatim>\<open>try\<close> that follow \<^verbatim>\<open>body = await request.json()\<close>. A
  method that is a list or a dictionary cannot be looked up in the registry, which raises
  \<^verbatim>\<open>TypeError\<close>.
\<close>

definition handle_body ::
    "py_runtime \<Rightarrow> tools \<Rightarrow> json \<Rightarrow> (raised + json) \<times> calls" where
  "handle_body rt registry body =
     (case body of
        JObj items \<Rightarrow>
          if obj_get items ''jsonrpc'' JNull \<noteq> JStr ''2.0''
            then (Inl (HTTPException ''Must be JSON-RPC 2.0''), [])
          else
            (let method = obj_get items ''method'' JNull in
             if \<not> py_truthy method
               then (Inl (HTTPException
                            (''Missing '' @ [CHR 0x27] @ ''method'' @ [CHR 0x27] @ '' field'')),
                     [])
             else
               (let request_id = obj_get items ''id'' JNull;
                    params = obj_get items ''params'' (JObj []);
                    unhashable = (\<lambda>type_name.
                      (Inl (PyError (TypeError (''unhashable type: '' @ [CHR 0x27] @
                                                type_name @ [CHR 0x27]))), []));
                    not_found =
                      (reraise
                         (JSONResponse rt
                            (jsonrpc_error request_id (-32601)
                               (''Method not found: '' @ fmt rt method)
                               [(''data'',
                                 JObj [(''available_methods'',
                                        JArr (map (\<lambda>(name, t). JStr name) registry))])])),
                       []) in
                case method of
                  JArr xs \<Rightarrow> unhashable ''list''
                | JObj kv \<Rightarrow> unhashable ''dict''
                | JStr name \<Rightarrow>
                    (case map_of registry name of
                       None \<Rightarrow> not_found
                     | Some tool_handler \<Rightarrow>
                         (case execute_tool rt name tool_handler request_id params of
                            (response, made) \<Rightarrow> (reraise response, made)))
                | _ \<Rightarrow> not_found))
      | _ \<Rightarrow> (Inl (HTTPException ''Request must be JSON object''), []))"

text \<open>
  \<^verbatim>\<open>body.get("id") if 'body' in locals() else None\<close> in the handlers of the outer
  \<^verbatim>\<open>try\<close>. The name \<^verbatim>\<open>body\<close> is bound once \<^verbatim>\<open>request.json()\<close> has returned; on a body
  that is not a dictionary \<^verbatim>\<open>body.get\<close> raises \<^verbatim>\<open>AttributeError\<close>.
\<close>

definition body_id :: "json option \<Rightarrow> py_error + json" where
  "body_id bound_body =
     (case bound_body of
        None \<Rightarrow> Inr JNull
      | Some body \<Rightarrow>
          (case body of
             JObj items \<Rightarrow> Inr (obj_get items ''id'' JNull)
           | _ \<Rightarrow> Inl (AttributeError ([CHR 0x27] @ py_type_name body @ [CHR 0x27] @
                                        '' object has no attribute '' @ [CHR 0x27] @ ''get'' @
                                        [CHR 0x27]))))"

text \<open>
  The handlers of the outer \<^verbatim>\<open>try\<close>: \<^verbatim>\<open>except json.JSONDecodeError\<close>, then
  \<^verbatim>\<open>except HTTPException as he\<close>, then \<^verbatim>\<open>except Exception as e\<close>. An exception raised
  inside a handler leaves the endpoint.
\<close>

definition on_exception :: "py_runtime \<Rightarrow> json option \<Rightarrow> raised \<Rightarrow> py_error + json" where
  "on_exception rt bound_body r =
     (case r of
        HTTPException detail \<Rightarrow>
          (case body_id bound_body of
             Inl e \<Rightarrow> Inl e
           | Inr request_id \<Rightarrow> JSONResponse rt (jsonrpc_error request_id (-32600) detail []))
      | PyError e \<Rightarrow>
          (case e of
             JSONDecodeError msg \<Rightarrow>
               JSONResponse rt (jsonrpc_error JNull (-32700) ''Parse error: Invalid JSON'' [])
           | _ \<Rightarrow>
               (case body_id bound_body of
                  Inl e' \<Rightarrow> Inl e'
                | Inr request_id \<Rightarrow>
                    JSONResponse rt
                      (jsonrpc_error request_id (-32603)
                         (''Internal error: '' @ error_text e) []))))"

text \<open>
  \<^verbatim>\<open>mcp_http_endpoint\<close>. The result is the content of the \<^verbatim>\<open>JSONResponse\<close>, or the
  exception that leaves the endpoint, with the calls of tool functions made.
\<close>

definition mcp_http_endpoint ::
    "py_runtime \<Rightarrow> tools \<Rightarrow> request \<Rightarrow> (py_error + json) \<times> calls" where
  "mcp_http_endpoint rt registry req =
     (case json_loads rt (raw_body req) of
        Inl e \<Rightarrow> (on_exception rt None (PyError e), [])
      | Inr body \<Rightarrow>
          (case handle_body rt registry body of
             (Inr response, made) \<Rightarrow> (Inr response, made)
           | (Inl r, made) \<Rightarrow> (on_exception rt (Some body) r, made)))"

text \<open>
  A runtime for the examples. Its \<open>json_loads\<close> is \<^verbatim>\<open>json.loads\<close> on the texts that the
  examples use: the documents that it parses, and texts that are no JSON, for which
  Python reports \<^verbatim>\<open>Expecting value: line 1 column 1 (char 0)\<close>. The other texts are those
  of CPython 3.12.
\<close>

definition example_documents :: "(string \<times> json) list" where
  \<open>example_documents =
     [(''{"jsonrpc": "2.0", "id": 1, "method": "health_check"}'',
       JObj [(''jsonrpc'', JStr ''2.0''), (''id'', JInt 1), (''method'', JStr ''health_check'')]),
      (''{"jsonrpc": "2.0", "id": 2, "method": "ping"}'',
       JObj [(''jsonrpc'', JStr ''2.0''), (''id'', JInt 2), (''method'', JStr ''ping'')]),
      (''{"jsonrpc": "2.0", "id": 3, "method": ""}'',
       JObj [(''jsonrpc'', JStr ''2.0''), (''id'', JInt 3), (''method'', JStr [])]),
      (''{"jsonrpc": "2.0", "id": 4, "method": "search"}'',
       JObj [(''jsonrpc'', JStr ''2.0''), (''id'', JInt 4), (''method'', JStr ''search'')]),
      (''{"jsonrpc": "2.0", "id": 5, "method": "fail"}'',
       JObj [(''jsonrpc'', JStr ''2.0''), (''id'', JInt 5), (''method'', JStr ''fail'')]),
      (''{"jsonrpc": "2.0", "id": 6, "method": "ratio"}'',
       JObj [(''jsonrpc'', JStr ''2.0''), (''id'', JInt 6), (''method'', JStr ''ratio'')]),
      (''{"jsonrpc": "2.0", "id": 7, "method": "version"}'',
       JObj [(''jsonrpc'', JStr ''2.0''), (''id'', JInt 7), (''method'', JStr ''version'')]),
      (''{"jsonrpc": "2.0", "id": 8, "method": "tags"}'',
       JObj [(''jsonrpc'', JStr ''2.0''), (''id'', JInt 8), (''method'', JStr ''tags'')]),
      (''{"jsonrpc": "2.0", "id": 9, "method": "strict", "params": {"verbose": true}}'',
       JObj [(''jsonrpc'', JStr ''2.0''), (''id'', JInt 9), (''method'', JStr ''strict''),
             (''params'', JObj [(''verbose'', JBool True)])]),
      (''{"jsonrpc": "2.0", "id": NaN, "method": "search"}'',
       JObj [(''jsonrpc'', JStr ''2.0''), (''id'', JNonFinite NaN),
             (''method'', JStr ''search'')]),
      (''[1, 2]'', JArr [JInt 1, JInt 2]),
      (''{"success": true}'', JObj [(''success'', JBool True)]),
      (''NaN'', JNonFinite NaN)]\<close>

definition example_runtime :: py_runtime where
  "example_runtime =
     \<lparr>json_loads = (\<lambda>s. case map_of example_documents s of
                          Some v \<Rightarrow> Inr v
                        | None \<Rightarrow>
                            Inl (JSONDecodeError ''Expecting value: line 1 column 1 (char 0)'')),
      py_str = (\<lambda>v. []),
      kwargs_error = (\<lambda>method params. ''argument after ** must be a mapping''),
      await_error = (\<lambda>type_name. ''object '' @ type_name @ '' can'' @ [CHR 0x27] @
                                  ''t be used in '' @ [CHR 0x27] @ ''await'' @ [CHR 0x27] @
                                  '' expression''),
      float_error = ''Out of range float values are not JSON compliant''\<rparr>"

text \<open>
  A registry for the examples: a tool that returns a JSON text, as the tools of the
  repository do; a tool that returns a text that is no JSON; a tool that raises; a tool
  that returns the text \<^verbatim>\<open>NaN\<close>; a plain \<^verbatim>\<open>def\<close>; a tool that returns a set; and a tool
  whose signature takes no keyword argument but the context.
\<close>

definition example_tools :: tools where
  \<open>example_tools =
     [(''health_check'', \<lparr>fn = (\<lambda>kw. Returns (Value (JStr ''{"success": true}''))),
                          is_async = True\<rparr>),
      (''ping'', \<lparr>fn = (\<lambda>kw. Returns (Value (JStr ''pong''))), is_async = True\<rparr>),
      (''fail'', \<lparr>fn = (\<lambda>kw. Raises (OtherError ''RuntimeError'' ''service unavailable'')),
                  is_async = True\<rparr>),
      (''ratio'', \<lparr>fn = (\<lambda>kw. Returns (Value (JStr ''NaN''))), is_async = True\<rparr>),
      (''version'', \<lparr>fn = (\<lambda>kw. Returns (Value (JStr ''{"success": true}''))),
                     is_async = False\<rparr>),
      (''tags'', \<lparr>fn = (\<lambda>kw. Returns (Unrenderable ''set''
                                         (TypeError ''Object of type set is not JSON serializable''))),
                  is_async = True\<rparr>),
      (''strict'', \<lparr>fn = (\<lambda>kw. if kw = [] then Returns (Value (JObj []))
                                else Raises (TypeError
                                       (''strict() got an unexpected keyword argument '' @
                                        [CHR 0x27] @ fst (hd kw) @ [CHR 0x27]))),
                    is_async = True\<rparr>)]\<close>

section \<open>knowledge\_storage.py: the learning files\<close>

text \<open>
  The world of the storage module. The type \<open>'dt\<close> is \<^verbatim>\<open>datetime\<close>; its functions
  belong to the standard library and are parameters:
  \<^item> \<open>clock n\<close> is what \<^verbatim>\<open>datetime.now()\<close> returns at its evaluation number \<open>n\<close> (from 0)
    during the call;
  \<^item> \<open>strptime_hms s\<close> is \<^verbatim>\<open>datetime.strptime(s, '%H%M%S')\<close>, \<open>None\<close> when it raises;
  \<^item> \<open>replace_date t a b c\<close> is \<^verbatim>\<open>t.replace(year=a.year, month=b.month, day=c.day)\<close>,
    \<open>None\<close> when it raises;
  \<^item> \<open>strftime_stamp t\<close> is \<^verbatim>\<open>t.strftime('%Y%m%d-%H%M%S')\<close>, \<open>isoformat t\<close> is
    \<^verbatim>\<open>t.isoformat()\<close>;
  \<^item> \<open>cwd_basename\<close> is \<^verbatim>\<open>os.path.basename(os.getcwd())\<close>;
  \<^item> \<open>project_root\<close> is the fifth parent of the module file, and \<open>absolute p\<close> is
    \<^verbatim>\<open>str(p.absolute())\<close>.
  Paths are joined with a slash. The file system is the set of its directories and the
  content of its files; its operations succeed.
\<close>

record 'dt storage_env =
  clock :: "nat \<Rightarrow> 'dt"
  strptime_hms :: "string \<Rightarrow> 'dt option"
  replace_date :: "'dt \<Rightarrow> 'dt \<Rightarrow> 'dt \<Rightarrow> 'dt \<Rightarrow> 'dt option"
  strftime_stamp :: "'dt \<Rightarrow> string"
  isoformat :: "'dt \<Rightarrow> string"
  cwd_basename :: string
  project_root :: string
  absolute :: "string \<Rightarrow> string"

record file_system =
  directories :: "string set"
  files :: "string \<rightharpoonup> string"

text \<open>\<^verbatim>\<open>s.split(sep)[-1]\<close>: what follows the last separator, the whole string when
  there is none.\<close>

definition last_field :: "char \<Rightarrow> string \<Rightarrow> string" where
  "last_field sep s = rev (takeWhile (\<lambda>c. c \<noteq> sep) (rev s))"

text \<open>
  The timestamp of the file, computed alike by \<^verbatim>\<open>save_learning_file\<close> and
  \<^verbatim>\<open>get_learning_file_paths\<close>: the clock when there is no session id; otherwise the time
  parsed from the last field of the session id, on the date of three readings of the
  clock, and the clock when the \<^verbatim>\<open>try\<close> raises. The second component counts the
  readings of the clock.
\<close>

definition session_timestamp :: "'dt storage_env \<Rightarrow> string option \<Rightarrow> 'dt \<times> nat" where
  "session_timestamp env session_id =
     (if \<not> truthy (dget session_id []) then (clock env 0, 1)
      else
        (case strptime_hms env (last_field (CHR ''-'') (dget session_id [])) of
           None \<Rightarrow> (clock env 0, 1)
         | Some parsed \<Rightarrow>
             (case replace_date env parsed (clock env 0) (clock env 1) (clock env 2) of
                None \<Rightarrow> (clock env 3, 4)
              | Some dated \<Rightarrow> (dated, 3))))"





definition knowledge_dir :: "'dt storage_env \<Rightarrow> string" where
  "knowledge_dir env = project_root env @ ''/knowledge/metacognition''"


text \<open>\<^verbatim>\<open>get_learning_file_paths\<close> reads the clock and touches no file.\<close>

definition get_learning_file_paths ::
    "'dt storage_env \<Rightarrow> learning_entry list \<Rightarrow> string option \<Rightarrow> py_error + str_dict" where
  "get_learning_file_paths env learning_entries session_id =
     (if \<not> truthy learning_entries then Inl (ValueError ''No learning entries provided'')
      else
        (let (ts, readings) = session_timestamp env session_id;
             filename = ''learning-'' @ strftime_stamp env ts @ ''.md'';
             filepath = knowledge_dir env @ ''/'' @ filename in
         Inr [(''absolute'', absolute env filepath),
              (''relative'', ''knowledge/metacognition/'' @ filename),
              (''filename'', filename)]))"

text \<open>A world for the examples: times are their texts, the clock stands at noon of the
  first day of 2025, and the project lies in \<^verbatim>\<open>/app\<close>.\<close>

definition example_storage_env :: "string storage_env" where
  "example_storage_env =
     \<lparr>clock = (\<lambda>n. ''20250101-120000''),
      strptime_hms = (\<lambda>s. if s = ''093000'' then Some ''19000101-093000'' else None),
      replace_date = (\<lambda>t a b c. Some (take 9 a @ drop 9 t)),
      strftime_stamp = (\<lambda>t. t),
      isoformat = (\<lambda>t. t),
      cwd_basename = ''app'',
      project_root = ''/app'',
      absolute = (\<lambda>p. p)\<rparr>"

section \<open>Properties: the titles of a synopsis\<close>

lemma title_words_loop_length:
  "length t \<le> 117 \<Longrightarrow> length (title_words_loop t ws) \<le> 117"
proof (induction ws arbitrary: t)
  case Nil
  then show ?case by simp
next
  case (Cons word ws)
  show ?case
  proof (cases "length (t @ '' '' @ word) \<le> 117")
    case True
    then have "length (t @ (if truthy t then '' '' @ word else word)) \<le> 117"
      by simp
    from Cons.IH [OF this] True show ?thesis by simp
  next
    case False
    with Cons.prems show ?thesis by simp
  qed
qed

lemma generate_title_length: "length (generate_title entry_str entry) \<le> 120"
  by (simp add: generate_title_def Let_def)

lemma generate_title_from_problem_length:
  "length (generate_title_from_problem problem_desc) \<le> 120"
proof -
  have "length (title_words_loop [] ws @ ''...'') \<le> 120" for ws
    using title_words_loop_length [of "[]" ws] by simp
  then show ?thesis
    by (simp add: generate_title_from_problem_def Let_def)
qed

text \<open>
  Claim C9. Every title that the generator produces has at most 120 characters: the title
  that \<^verbatim>\<open>_generate_title\<close> makes from a learning entry, whatever Python prints for the
  entry, and the title that \<^verbatim>\<open>_generate_title_from_problem\<close> makes from a problem
  description.
\<close>

theorem title_at_most_120:
  "length (generate_title entry_str entry) \<le> 120 \<and>
   length (generate_title_from_problem problem_desc) \<le> 120"
  by (simp add: generate_title_length generate_title_from_problem_length)

theorem title_at_most_120_witness:
  "length (generate_title (\<lambda>e. ''node'')
     \<lparr>e_id = None, e_timestamp = None, e_trigger = None,
      e_situation = Some \<lparr>goal = None, action_taken = None, expected_result = None,
                           actual_result = Some (concat (replicate 30 ''failed ''))\<rparr>,
      e_debug_journey = None, e_resolution = None, e_knowledge_synthesis = None,
      e_version = None, e_synopsis = None, e_title = None, e_embedding_fields = None\<rparr>)
     \<le> 120 \<and>
   length (generate_title_from_problem (concat (replicate 30 ''Error!! ''))) \<le> 120"
  by (rule title_at_most_120)

section \<open>Properties: the bullets of a synopsis\<close>

lemma map_entry_keys: "map fst (AList.map_entry k f al) = map fst al"
  by (induction al) auto

lemma update_keys_present:
  "k \<in> set (map fst al) \<Longrightarrow> map fst (AList.update k v al) = map fst al"
  by (induction al) auto

lemma expand_key_keys: "map fst (expand_key w k b) = map fst b"
  by (simp add: expand_key_def map_entry_keys)

lemma fold_expand_key_keys: "map fst (fold (expand_key w) ks b) = map fst b"
  by (induction ks arbitrary: b) (simp_all add: expand_key_keys)

lemma expand_bullets_keys: "map fst (expand_bullets b n) = map fst b"
  by (simp add: expand_bullets_def Let_def fold_expand_key_keys)

lemma max_by_mem: "max_by f best xs \<in> set (best # xs)"
  by (induction xs arbitrary: best) auto

lemma longest_key_mem: "longest_key c = Inr k \<Longrightarrow> k \<in> set (map fst c)"
proof (cases "map fst c")
  case Nil
  assume "longest_key c = Inr k"
  with Nil show ?thesis by (simp add: longest_key_def)
next
  case (Cons k0 ks)
  assume "longest_key c = Inr k"
  with Cons have "k = max_by (\<lambda>k. length (split (getitem c k))) k0 ks"
    by (simp add: longest_key_def)
  with max_by_mem [of "\<lambda>k. length (split (getitem c k))" k0 ks] Cons show ?thesis
    by simp
qed

lemma longest_key_nonempty: "c \<noteq> [] \<Longrightarrow> \<exists>k. longest_key c = Inr k"
  by (cases c) (simp_all add: longest_key_def)

text \<open>On a dictionary with a key, the loop of \<^verbatim>\<open>_compress_bullets\<close> returns, and it
  returns a dictionary with the same keys in the same order.\<close>

lemma compress_loop_keys:
  "c \<noteq> [] \<Longrightarrow> \<exists>c'. compress_loop c n = Inr c' \<and> map fst c' = map fst c"
proof (induction c n rule: compress_loop.induct)
  case (1 compressed words_to_remove)
  note unfold = compress_loop.simps [of compressed words_to_remove]
  show ?case
  proof (cases "words_to_remove > 0")
    case False
    then show ?thesis by (simp add: unfold)
  next
    case pos: True
    from longest_key_nonempty [OF "1.prems"]
    obtain key where key: "longest_key compressed = Inr key"
      by blast
    then have mem: "key \<in> set (map fst compressed)" by (rule longest_key_mem)
    show ?thesis
    proof (cases "length (split (getitem compressed key)) > 5")
      case False
      with pos key show ?thesis by (simp add: unfold)
    next
      case long: True
      let ?c = "AList.update key (join '' '' (butlast (split (getitem compressed key))))
                  compressed"
      have keys: "map fst ?c = map fst compressed"
        using mem by (rule update_keys_present)
      with "1.prems" have ne: "?c \<noteq> []" by (metis list.map_disc_iff)
      from "1.IH" [OF pos key refl long ne] keys
      obtain c' where "compress_loop ?c (words_to_remove - 1) = Inr c'"
        and "map fst c' = map fst compressed"
        by auto
      with pos key long show ?thesis by (simp add: unfold Let_def)
    qed
  qed
qed

lemma adjust_word_count_keys:
  "\<exists>b'. adjust_word_count b = Inr b' \<and> map fst b' = map fst b"
proof -
  let ?wc = "length (split (join '' '' (map snd b)))"
  show ?thesis
  proof (cases "200 < ?wc")
    case True
    then have "b \<noteq> []" by (auto simp: split_def)
    from compress_loop_keys [OF this, of "int ?wc - 200"] True show ?thesis
      by (simp add: adjust_word_count_def Let_def compress_bullets_def)
  next
    case False
    then show ?thesis
      by (simp add: adjust_word_count_def Let_def expand_bullets_keys)
  qed
qed

lemma generate_synopsis_shape:
  "\<exists>t b. generate_synopsis entry_str entry =
            Inr \<lparr>syn_title = Some t, syn_bullets = Some b\<rparr> \<and>
         map fst b = [''symptoms'', ''context'', ''root_cause'', ''fix'', ''applies_when'']"
proof -
  obtain b' where "adjust_word_count (generate_bullets entry) = Inr b'"
    and "map fst b' = map fst (generate_bullets entry)"
    using adjust_word_count_keys by blast
  then show ?thesis
    by (simp add: generate_synopsis_def Let_def generate_bullets_def)
qed

lemma create_synopsis_shape:
  "\<exists>t b. create_synopsis_from_session_data sd =
            Inr \<lparr>syn_title = Some t, syn_bullets = Some b\<rparr> \<and>
         map fst b = [''symptoms'', ''context'', ''root_cause'', ''fix'', ''applies_when'']"
proof (cases "dget (debugging_experiences sd) []")
  case Nil
  then show ?thesis
    by (simp add: create_synopsis_from_session_data_def create_default_synopsis_def)
next
  case (Cons exp others)
  let ?b = "[(''symptoms'', extract_symptoms exp), (''context'', extract_context exp sd),
             (''root_cause'', extract_root_cause_from_experience exp),
             (''fix'', extract_fix exp), (''applies_when'', extract_applicability exp)]"
  obtain b' where "adjust_word_count ?b = Inr b'" and "map fst b' = map fst ?b"
    using adjust_word_count_keys by blast
  with Cons show ?thesis
    by (simp add: create_synopsis_from_session_data_def Let_def)
qed

text \<open>
  Claim C4. For every learning entry and for every session data, \<^verbatim>\<open>generate_synopsis\<close>
  and \<^verbatim>\<open>create_synopsis_from_session_data\<close> return (they do not raise), and what they
  return has a title, which is a string, and a dictionary of bullets whose keys are
  exactly \<^verbatim>\<open>symptoms\<close>, \<^verbatim>\<open>context\<close>, \<^verbatim>\<open>root_cause\<close>, \<^verbatim>\<open>fix\<close> and
  \<^verbatim>\<open>applies_when\<close>, each once. The adjustment of the word count keeps the keys of any
  dictionary of bullets, and so do its two branches: \<^verbatim>\<open>_expand_bullets\<close> always, and
  \<^verbatim>\<open>_compress_bullets\<close> on every dictionary that has a key.
\<close>

theorem synopsis_title_and_bullet_keys:
  "(\<exists>t b. generate_synopsis entry_str entry =
            Inr \<lparr>syn_title = Some t, syn_bullets = Some b\<rparr> \<and> distinct (map fst b) \<and>
          set (map fst b) = {''symptoms'', ''context'', ''root_cause'', ''fix'', ''applies_when''}) \<and>
   (\<exists>t b. create_synopsis_from_session_data sd =
            Inr \<lparr>syn_title = Some t, syn_bullets = Some b\<rparr> \<and> distinct (map fst b) \<and>
          set (map fst b) = {''symptoms'', ''context'', ''root_cause'', ''fix'', ''applies_when''}) \<and>
   (\<exists>b'. adjust_word_count bullets = Inr b' \<and> map fst b' = map fst bullets) \<and>
   map fst (expand_bullets bullets n) = map fst bullets \<and>
   (bullets \<noteq> [] \<longrightarrow>
      (\<exists>b'. compress_bullets bullets n = Inr b' \<and> map fst b' = map fst bullets))"
proof -
  obtain t1 b1 where g: "generate_synopsis entry_str entry =
        Inr \<lparr>syn_title = Some t1, syn_bullets = Some b1\<rparr>"
    and k1: "map fst b1 = [''symptoms'', ''context'', ''root_cause'', ''fix'', ''applies_when'']"
    using generate_synopsis_shape [of entry_str entry] by auto
  obtain t2 b2 where c: "create_synopsis_from_session_data sd =
        Inr \<lparr>syn_title = Some t2, syn_bullets = Some b2\<rparr>"
    and k2: "map fst b2 = [''symptoms'', ''context'', ''root_cause'', ''fix'', ''applies_when'']"
    using create_synopsis_shape [of sd] by auto
  have first: "\<exists>t b. generate_synopsis entry_str entry =
            Inr \<lparr>syn_title = Some t, syn_bullets = Some b\<rparr> \<and> distinct (map fst b) \<and>
          set (map fst b) = {''symptoms'', ''context'', ''root_cause'', ''fix'', ''applies_when''}"
    using g k1 by auto
  have second: "\<exists>t b. create_synopsis_from_session_data sd =
            Inr \<lparr>syn_title = Some t, syn_bullets = Some b\<rparr> \<and> distinct (map fst b) \<and>
          set (map fst b) = {''symptoms'', ''context'', ''root_cause'', ''fix'', ''applies_when''}"
    using c k2 by auto
  have last: "bullets \<noteq> [] \<longrightarrow>
      (\<exists>b'. compress_bullets bullets n = Inr b' \<and> map fst b' = map fst bullets)"
    using compress_loop_keys [of bullets n] by (simp add: compress_bullets_def)
  from first second adjust_word_count_keys [of bullets] expand_bullets_keys [of bullets n] last
  show ?thesis by blast
qed

theorem synopsis_title_and_bullet_keys_witness:
  "(\<exists>t b. generate_synopsis (\<lambda>e. ''{}'')
            \<lparr>e_id = Some ''L001'', e_timestamp = None, e_trigger = None,
             e_situation = Some \<lparr>goal = Some ''Install node'', action_taken = None,
                                  expected_result = None,
                                  actual_result = Some ''npm install failed''\<rparr>,
             e_debug_journey = None, e_resolution = None, e_knowledge_synthesis = None,
             e_version = Some 2, e_synopsis = None, e_title = None,
             e_embedding_fields = None\<rparr> =
            Inr \<lparr>syn_title = Some t, syn_bullets = Some b\<rparr> \<and> distinct (map fst b) \<and>
          set (map fst b) = {''symptoms'', ''context'', ''root_cause'', ''fix'', ''applies_when''}) \<and>
   (\<exists>t b. create_synopsis_from_session_data
            \<lparr>debugging_experiences =
               Some [\<lparr>problem_description = Some ''Import error: module not found'',
                      investigation_steps = None, solution_applied = Some ''pip install x'',
                      outcome = None\<rparr>],
             timestamp = None, project_context = None, other_keys = []\<rparr> =
            Inr \<lparr>syn_title = Some t, syn_bullets = Some b\<rparr> \<and> distinct (map fst b) \<and>
          set (map fst b) = {''symptoms'', ''context'', ''root_cause'', ''fix'', ''applies_when''}) \<and>
   (\<exists>b'. adjust_word_count [(''symptoms'', ''a b c d e f g''), (''context'', ''x'')] = Inr b' \<and>
         map fst b' = [''symptoms'', ''context'']) \<and>
   map fst (expand_bullets [(''symptoms'', ''a b c d e f g''), (''context'', ''x'')] 2) =
     [''symptoms'', ''context''] \<and>
   (\<exists>b'. compress_bullets [(''symptoms'', ''a b c d e f g''), (''context'', ''x'')] 2 = Inr b' \<and>
         map fst b' = [''symptoms'', ''context''])"
  using synopsis_title_and_bullet_keys
    [of "\<lambda>e. ''{}''"
        "\<lparr>e_id = Some ''L001'', e_timestamp = None, e_trigger = None,
             e_situation = Some \<lparr>goal = Some ''Install node'', action_taken = None,
                                  expected_result = None,
                                  actual_result = Some ''npm install failed''\<rparr>,
             e_debug_journey = None, e_resolution = None, e_knowledge_synthesis = None,
             e_version = Some 2, e_synopsis = None, e_title = None,
             e_embedding_fields = None\<rparr>"
        "\<lparr>debugging_experiences =
               Some [\<lparr>problem_description = Some ''Import error: module not found'',
                      investigation_steps = None, solution_applied = Some ''pip install x'',
                      outcome = None\<rparr>],
             timestamp = None, project_context = None, other_keys = []\<rparr>"
        "[(''symptoms'', ''a b c d e f g''), (''context'', ''x'')]" 2]
  by simp

section \<open>Properties: the learning entries\<close>

lemma digit_char_0: "digit_char 0 = CHR ''0''"
  by (simp add: digit_char_def digit_chars_def)

lemma decimal_small: "n < 10 \<Longrightarrow> decimal n = [digit_char n]"
  by (simp add: decimal.simps [of n])

lemma decimal_step: "10 \<le> n \<Longrightarrow> decimal n = decimal (n div 10) @ [digit_char (n mod 10)]"
  by (simp add: decimal.simps [of n])

lemma format_03d_three_digits:
  assumes n: "n < 1000"
  shows "format_03d n =
           [digit_char (n div 100), digit_char (n div 10 mod 10), digit_char (n mod 10)]"
proof -
  consider (one) "n < 10" | (two) "10 \<le> n" "n < 100" | (three) "100 \<le> n"
    by linarith
  then show ?thesis
  proof cases
    case one
    then have d: "decimal n = [digit_char n]" by (rule decimal_small)
    have r: "replicate 2 (CHR ''0'') = ''00''" by (simp add: numeral_2_eq_2)
    from one have "n div 100 = 0" "n div 10 = 0" by simp_all
    with d r show ?thesis by (simp add: format_03d_def digit_char_0)
  next
    case two
    then have "n div 10 < 10" by simp
    then have "decimal (n div 10) = [digit_char (n div 10)]" by (rule decimal_small)
    with two have d: "decimal n = [digit_char (n div 10), digit_char (n mod 10)]"
      by (simp add: decimal_step)
    from two have "n div 100 = 0" "n div 10 mod 10 = n div 10" by simp_all
    with d show ?thesis by (simp add: format_03d_def digit_char_0)
  next
    case three
    with n have a: "n div 10 div 10 < 10" "10 \<le> n div 10" "10 \<le> n" by simp_all
    have h: "n div 10 div 10 = n div 100" by (simp add: div_mult2_eq [symmetric])
    from a(1) have "decimal (n div 10 div 10) = [digit_char (n div 10 div 10)]"
      by (rule decimal_small)
    with a(2) have "decimal (n div 10) = [digit_char (n div 100), digit_char (n div 10 mod 10)]"
      by (simp add: decimal_step h)
    with a(3) have "decimal n =
        [digit_char (n div 100), digit_char (n div 10 mod 10), digit_char (n mod 10)]"
      by (simp add: decimal_step)
    then show ?thesis by (simp add: format_03d_def)
  qed
qed

lemma decimal_not_empty: "decimal n \<noteq> []"
  by (simp add: decimal.simps [of n])

text \<open>From 1000 on the format prints the digits of the number, without padding.\<close>

lemma format_03d_large:
  assumes "1000 \<le> n"
  shows "format_03d n = decimal n"
proof -
  from assms have a: "10 \<le> n" "10 \<le> n div 10" "10 \<le> n div 10 div 10" by simp_all
  have "decimal n = decimal (n div 10 div 10 div 10) @
      [digit_char (n div 10 div 10 mod 10), digit_char (n div 10 mod 10), digit_char (n mod 10)]"
    using a by (simp add: decimal_step)
  then have "4 \<le> length (decimal n)"
    using decimal_not_empty [of "n div 10 div 10 div 10"]
    by (cases "decimal (n div 10 div 10 div 10)") simp_all
  then show ?thesis by (simp add: format_03d_def)
qed

lemma extract_embedding_returns: "\<exists>d. extract_embedding_field_content sd = Inr d"
proof (cases "dget (debugging_experiences sd) []")
  case Nil
  then show ?thesis by (simp add: extract_embedding_field_content_def)
next
  case (Cons exp others)
  obtain t b where "create_synopsis_from_session_data sd =
      Inr \<lparr>syn_title = Some t, syn_bullets = Some b\<rparr>"
    using create_synopsis_shape [of sd] by auto
  with Cons show ?thesis
    by (simp add: extract_embedding_field_content_def synopsis_title_def)
qed

lemma base_entry_keys:
  "e_id (base_entry exp entry_id ts) = Some entry_id"
  "e_timestamp (base_entry exp entry_id ts) = Some ts"
  "\<exists>y. e_trigger (base_entry exp entry_id ts) = Some y"
  "\<exists>y. e_situation (base_entry exp entry_id ts) = Some y"
  "\<exists>y. e_debug_journey (base_entry exp entry_id ts) = Some y"
  "\<exists>y. e_resolution (base_entry exp entry_id ts) = Some y"
  "\<exists>y. e_knowledge_synthesis (base_entry exp entry_id ts) = Some y"
  by (simp_all add: base_entry_def Let_def)

lemma create_single_learning_entry_returns:
  "\<exists>entry. create_single_learning_entry entry_str exp entry_id ts sd_opt generator = Inr entry \<and>
     e_id entry = Some entry_id \<and> e_timestamp entry = Some ts \<and>
     e_trigger entry \<noteq> None \<and> e_situation entry \<noteq> None \<and> e_debug_journey entry \<noteq> None \<and>
     e_resolution entry \<noteq> None \<and> e_knowledge_synthesis entry \<noteq> None"
proof (cases generator)
  case None
  then show ?thesis by (simp add: create_single_learning_entry_def Let_def base_entry_keys)
next
  case (Some gen)
  define session where "session = (case sd_opt of None \<Rightarrow> None
      | Some sd \<Rightarrow> if session_truthy sd then Some sd else None)"
  define entry2 where "entry2 = (base_entry exp entry_id ts)\<lparr>e_version := Some 2\<rparr>"
  show ?thesis
  proof (cases session)
    case None
    obtain t b where "generate_synopsis entry_str entry2 =
        Inr \<lparr>syn_title = Some t, syn_bullets = Some b\<rparr>"
      using generate_synopsis_shape [of entry_str entry2] by auto
    with Some None show ?thesis
      unfolding create_single_learning_entry_def Let_def session_def [symmetric]
        entry2_def [symmetric]
      by (simp add: synopsis_title_def entry2_def base_entry_keys)
  next
    case session: (Some sd)
    obtain t b where "create_synopsis_from_session_data sd =
        Inr \<lparr>syn_title = Some t, syn_bullets = Some b\<rparr>"
      using create_synopsis_shape [of sd] by auto
    moreover obtain d where "extract_embedding_field_content sd = Inr d"
      using extract_embedding_returns by blast
    ultimately show ?thesis using Some session
      unfolding create_single_learning_entry_def Let_def session_def [symmetric]
        entry2_def [symmetric]
      by (simp add: synopsis_title_def entry2_def base_entry_keys)
  qed
qed
lemma entry_keys_base:
  assumes "e_id entry = Some entry_id" and "e_timestamp entry = Some ts"
    and "\<exists>y. e_trigger entry = Some y" and "\<exists>y. e_situation entry = Some y"
    and "\<exists>y. e_debug_journey entry = Some y" and "\<exists>y. e_resolution entry = Some y"
    and "\<exists>y. e_knowledge_synthesis entry = Some y"
  shows "set [''id'', ''timestamp'', ''trigger'', ''situation'', ''debug_journey'',
              ''resolution'', ''knowledge_synthesis''] \<subseteq> set (entry_keys entry)"
  using assms by (auto simp: entry_keys_def key_if_def)

text \<open>The loop returns one entry per experience; the entry at position \<open>j\<close> is the one
  that \<^verbatim>\<open>_create_single_learning_entry\<close> builds from the experience at position \<open>j\<close>,
  with the number \<open>i + j\<close>.\<close>

lemma create_learning_entries_loop_returns:
  "\<exists>es. create_learning_entries_loop entry_str now sd generator i exps = Inr es \<and>
        length es = length exps \<and>
        (\<forall>j<length exps.
           create_single_learning_entry entry_str (exps ! j) (''L'' @ format_03d (i + j))
             (dget (timestamp sd) (now (i + j))) (Some sd) generator = Inr (es ! j))"
proof (induction exps arbitrary: i)
  case Nil
  then show ?case by simp
next
  case (Cons exp exps)
  obtain entry where entry: "create_single_learning_entry entry_str exp (''L'' @ format_03d i)
      (dget (timestamp sd) (now i)) (Some sd) generator = Inr entry"
    using create_single_learning_entry_returns by blast
  from Cons.IH [of "Suc i"] obtain es
    where es: "create_learning_entries_loop entry_str now sd generator (Suc i) exps = Inr es"
      and len: "length es = length exps"
      and nth: "\<forall>j<length exps.
           create_single_learning_entry entry_str (exps ! j) (''L'' @ format_03d (Suc i + j))
             (dget (timestamp sd) (now (Suc i + j))) (Some sd) generator = Inr (es ! j)"
    by blast
  have "\<forall>j<length (exp # exps).
           create_single_learning_entry entry_str ((exp # exps) ! j) (''L'' @ format_03d (i + j))
             (dget (timestamp sd) (now (i + j))) (Some sd) generator = Inr ((entry # es) ! j)"
  proof (intro allI impI)
    fix j
    assume j: "j < length (exp # exps)"
    show "create_single_learning_entry entry_str ((exp # exps) ! j) (''L'' @ format_03d (i + j))
             (dget (timestamp sd) (now (i + j))) (Some sd) generator = Inr ((entry # es) ! j)"
    proof (cases j)
      case 0
      with entry show ?thesis by simp
    next
      case (Suc k)
      with j have "k < length exps" by simp
      with nth Suc show ?thesis by simp
    qed
  qed
  with entry es len show ?case by simp
qed

text \<open>
  Claim C5. For every session data, with or without the synopsis format,
  \<^verbatim>\<open>create_learning_entries\<close> returns a list with one learning entry per element of
  \<^verbatim>\<open>debugging_experiences\<close> (none when the key is absent). The entry at position \<open>j\<close>
  (from 0) is the one built from the experience at position \<open>j\<close>; its id is \<^verbatim>\<open>L\<close>
  followed by \<open>j + 1\<close> in the format \<^verbatim>\<open>03d\<close> (three digits with zeros on the left up
  to 999, see \<open>format_03d_three_digits\<close>); and it has the keys \<^verbatim>\<open>id\<close>,
  \<^verbatim>\<open>timestamp\<close>, \<^verbatim>\<open>trigger\<close>, \<^verbatim>\<open>situation\<close>, \<^verbatim>\<open>debug_journey\<close>,
  \<^verbatim>\<open>resolution\<close> and \<^verbatim>\<open>knowledge_synthesis\<close>.
\<close>

theorem create_learning_entries_one_per_experience:
  "\<exists>entries.
     create_learning_entries entry_str now sd use_v2_format = Inr entries \<and>
     length entries = length (dget (debugging_experiences sd) []) \<and>
     (\<forall>j<length entries.
        create_single_learning_entry entry_str (dget (debugging_experiences sd) [] ! j)
          (''L'' @ format_03d (Suc j)) (dget (timestamp sd) (now (Suc j))) (Some sd)
          (if use_v2_format then Some SynopsisGenerator else None) = Inr (entries ! j) \<and>
        e_id (entries ! j) = Some (''L'' @ format_03d (Suc j)) \<and>
        set [''id'', ''timestamp'', ''trigger'', ''situation'', ''debug_journey'',
             ''resolution'', ''knowledge_synthesis''] \<subseteq> set (entry_keys (entries ! j)))"
proof -
  let ?exps = "dget (debugging_experiences sd) []"
  let ?gen = "if use_v2_format then Some SynopsisGenerator else None"
  from create_learning_entries_loop_returns [of entry_str now sd ?gen 1 ?exps]
  obtain es where es: "create_learning_entries_loop entry_str now sd ?gen 1 ?exps = Inr es"
    and len: "length es = length ?exps"
    and nth: "\<forall>j<length ?exps.
        create_single_learning_entry entry_str (?exps ! j) (''L'' @ format_03d (1 + j))
          (dget (timestamp sd) (now (1 + j))) (Some sd) ?gen = Inr (es ! j)"
    by blast
  have "\<forall>j<length es.
        create_single_learning_entry entry_str (?exps ! j) (''L'' @ format_03d (Suc j))
          (dget (timestamp sd) (now (Suc j))) (Some sd) ?gen = Inr (es ! j) \<and>
        e_id (es ! j) = Some (''L'' @ format_03d (Suc j)) \<and>
        set [''id'', ''timestamp'', ''trigger'', ''situation'', ''debug_journey'',
             ''resolution'', ''knowledge_synthesis''] \<subseteq> set (entry_keys (es ! j))"
  proof (intro allI impI)
    fix j
    assume "j < length es"
    with len nth have built: "create_single_learning_entry entry_str (?exps ! j)
        (''L'' @ format_03d (Suc j)) (dget (timestamp sd) (now (Suc j))) (Some sd) ?gen =
        Inr (es ! j)"
      by simp
    from create_single_learning_entry_returns
      [of entry_str "?exps ! j" "''L'' @ format_03d (Suc j)" "dget (timestamp sd) (now (Suc j))"
          "Some sd" ?gen] built
    have fields: "e_id (es ! j) = Some (''L'' @ format_03d (Suc j))"
      "e_timestamp (es ! j) = Some (dget (timestamp sd) (now (Suc j)))"
      "\<exists>y. e_trigger (es ! j) = Some y" "\<exists>y. e_situation (es ! j) = Some y"
      "\<exists>y. e_debug_journey (es ! j) = Some y" "\<exists>y. e_resolution (es ! j) = Some y"
      "\<exists>y. e_knowledge_synthesis (es ! j) = Some y"
      by auto
    from built fields(1) entry_keys_base [OF fields]
    show "create_single_learning_entry entry_str (?exps ! j) (''L'' @ format_03d (Suc j))
          (dget (timestamp sd) (now (Suc j))) (Some sd) ?gen = Inr (es ! j) \<and>
        e_id (es ! j) = Some (''L'' @ format_03d (Suc j)) \<and>
        set [''id'', ''timestamp'', ''trigger'', ''situation'', ''debug_journey'',
             ''resolution'', ''knowledge_synthesis''] \<subseteq> set (entry_keys (es ! j))"
      by blast
  qed
  with es len show ?thesis
    unfolding create_learning_entries_def Let_def by blast
qed
lemma format_03d_1: "format_03d 1 = ''001''"
  by code_simp

lemma format_03d_2: "format_03d 2 = ''002''"
  by code_simp

theorem create_learning_entries_one_per_experience_witness:
  "\<exists>entries.
     create_learning_entries (\<lambda>e. ''{}'') (\<lambda>i. ''2025-01-01T00:00:00'')
       \<lparr>debugging_experiences =
          Some [\<lparr>problem_description = Some ''Import error: module not found'',
                 investigation_steps = Some [''checked path'', ''tried pip''],
                 solution_applied = Some ''pip install x'', outcome = None\<rparr>,
                \<lparr>problem_description = None, investigation_steps = None,
                 solution_applied = None, outcome = None\<rparr>],
        timestamp = None, project_context = None, other_keys = [''session_id'']\<rparr> True =
       Inr entries \<and>
     length entries = 2 \<and>
     e_id (entries ! 0) = Some ''L001'' \<and> e_id (entries ! 1) = Some ''L002'' \<and>
     set [''id'', ''timestamp'', ''trigger'', ''situation'', ''debug_journey'',
          ''resolution'', ''knowledge_synthesis''] \<subseteq> set (entry_keys (entries ! 1))"
proof -
  let ?sd = "\<lparr>debugging_experiences =
          Some [\<lparr>problem_description = Some ''Import error: module not found'',
                 investigation_steps = Some [''checked path'', ''tried pip''],
                 solution_applied = Some ''pip install x'', outcome = None\<rparr>,
                \<lparr>problem_description = None, investigation_steps = None,
                 solution_applied = None, outcome = None\<rparr>],
        timestamp = None, project_context = None, other_keys = [''session_id'']\<rparr>"
  from create_learning_entries_one_per_experience
    [of "\<lambda>e. ''{}''" "\<lambda>i. ''2025-01-01T00:00:00''" ?sd True]
  obtain entries
    where ret: "create_learning_entries (\<lambda>e. ''{}'') (\<lambda>i. ''2025-01-01T00:00:00'') ?sd True =
        Inr entries"
      and len: "length entries = length (dget (debugging_experiences ?sd) [])"
      and each: "\<forall>j<length entries.
        e_id (entries ! j) = Some (''L'' @ format_03d (Suc j)) \<and>
        set [''id'', ''timestamp'', ''trigger'', ''situation'', ''debug_journey'',
             ''resolution'', ''knowledge_synthesis''] \<subseteq> set (entry_keys (entries ! j))"
    by blast
  from len have two: "length entries = 2" by (simp add: dget_def)
  with each have "e_id (entries ! 0) = Some (''L'' @ format_03d (Suc 0))"
    and "e_id (entries ! 1) = Some (''L'' @ format_03d (Suc 1))"
    and "set [''id'', ''timestamp'', ''trigger'', ''situation'', ''debug_journey'',
             ''resolution'', ''knowledge_synthesis''] \<subseteq> set (entry_keys (entries ! 1))"
    by simp_all
  with ret two show ?thesis
    using format_03d_1 format_03d_2 by (simp add: numeral_2_eq_2)
qed

section \<open>Properties: the clock and the learning entries\<close>

lemma create_learning_entries_loop_clock:
  "timestamp sd = Some ts \<Longrightarrow>
   create_learning_entries_loop entry_str now1 sd generator i exps =
   create_learning_entries_loop entry_str now2 sd generator i exps"
proof (induction exps arbitrary: i)
  case Nil
  show ?case by simp
next
  case (Cons exp exps)
  from Cons.IH [OF Cons.prems, of "Suc i"] Cons.prems show ?case
    by (simp add: dget_def split: sum.splits)
qed

text \<open>
  Claim C6. The only state outside its arguments that \<^verbatim>\<open>create_learning_entries\<close>
  reads is the clock (the generator it creates is fresh and never written). When the
  session data has the key \<^verbatim>\<open>timestamp\<close>, two calls with the same session data and the
  same flag return, and they return the same list of entries, whatever the clock gives
  during each call.
\<close>

theorem create_learning_entries_deterministic:
  "timestamp sd = Some ts \<Longrightarrow>
   \<exists>entries. create_learning_entries entry_str now1 sd use_v2_format = Inr entries \<and>
             create_learning_entries entry_str now2 sd use_v2_format = Inr entries"
proof -
  assume ts: "timestamp sd = Some ts"
  let ?gen = "if use_v2_format then Some SynopsisGenerator else None"
  let ?exps = "dget (debugging_experiences sd) []"
  obtain es where "create_learning_entries_loop entry_str now1 sd ?gen 1 ?exps = Inr es"
    using create_learning_entries_loop_returns by blast
  with create_learning_entries_loop_clock [OF ts, of entry_str now1 ?gen 1 ?exps now2]
  show ?thesis
    unfolding create_learning_entries_def Let_def by simp
qed

theorem create_learning_entries_deterministic_witness:
  "\<exists>entries.
     create_learning_entries (\<lambda>e. ''{}'') (\<lambda>i. ''2025-01-01T00:00:00'')
       \<lparr>debugging_experiences =
          Some [\<lparr>problem_description = Some ''Import error: module not found'',
                 investigation_steps = Some [''checked path'', ''tried pip''],
                 solution_applied = Some ''pip install x'', outcome = None\<rparr>],
        timestamp = Some ''2024-12-31T23:59:59'', project_context = None,
        other_keys = []\<rparr> True = Inr entries \<and>
     create_learning_entries (\<lambda>e. ''{}'') (\<lambda>i. ''2031-07-07T07:07:07'')
       \<lparr>debugging_experiences =
          Some [\<lparr>problem_description = Some ''Import error: module not found'',
                 investigation_steps = Some [''checked path'', ''tried pip''],
                 solution_applied = Some ''pip install x'', outcome = None\<rparr>],
        timestamp = Some ''2024-12-31T23:59:59'', project_context = None,
        other_keys = []\<rparr> True = Inr entries"
  by (rule create_learning_entries_deterministic) simp

text \<open>Without the key the entries carry what the clock gives: two clocks give two lists.\<close>

lemma create_learning_entries_reads_clock:
  "create_learning_entries (\<lambda>e. ''{}'') (\<lambda>i. ''2025-01-01T00:00:00'')
     \<lparr>debugging_experiences =
        Some [\<lparr>problem_description = None, investigation_steps = None,
               solution_applied = None, outcome = None\<rparr>],
      timestamp = None, project_context = None, other_keys = []\<rparr> False \<noteq>
   create_learning_entries (\<lambda>e. ''{}'') (\<lambda>i. ''2031-07-07T07:07:07'')
     \<lparr>debugging_experiences =
        Some [\<lparr>problem_description = None, investigation_steps = None,
               solution_applied = None, outcome = None\<rparr>],
      timestamp = None, project_context = None, other_keys = []\<rparr> False"
  by (simp add: create_learning_entries_def create_single_learning_entry_def base_entry_def
      dget_def Let_def)

section \<open>Properties: the crawler manager\<close>

lemma CrawlerManager_new_again:
  "CrawlerManager_new cls = (obj, cls') \<Longrightarrow> CrawlerManager_new cls' = (obj, cls')"
  by (auto simp: CrawlerManager_new_def split: option.splits)

lemma repeat_new_same:
  "CrawlerManager_new cls' = (obj, cls') \<Longrightarrow> repeat_new n cls' = (replicate n obj, cls')"
  by (induction n) simp_all

lemma initialize_success:
  "initialize env m = (Inr u, m') \<Longrightarrow> initialized m' \<and> (\<exists>c. crawler m' = Some c)"
  by (auto simp: initialize_def try_crawl4ai_def Let_def
      split: if_splits option.splits sum.splits prod.splits)

lemma get_crawler_initialized:
  "initialized m \<Longrightarrow> crawler m = Some c \<Longrightarrow> get_crawler env m = (Inr (Some c), m)"
  by (simp add: get_crawler_def)

lemma repeat_get_crawler_initialized:
  "initialized m \<Longrightarrow> crawler m = Some c \<Longrightarrow>
   repeat_get_crawler envs m = (replicate (length envs) (Inr (Some c)), m)"
  by (induction envs) (simp_all add: get_crawler_initialized)

text \<open>
  Claim C7. The manager is a singleton: once \<^verbatim>\<open>CrawlerManager()\<close> has returned an
  object, every later evaluation returns that object and creates none. It is initialized
  lazily and once: after a run of \<^verbatim>\<open>initialize\<close> that returned without raising, the
  manager holds a crawler, and every later call of \<^verbatim>\<open>get_crawler\<close>, whatever the world
  would do to an initialization, returns that crawler object and leaves the manager as
  it is (no crawler is constructed: \<open>created\<close> does not change).
\<close>

theorem crawler_manager_singleton_lazy:
  "(CrawlerManager_new cls = (obj, cls') \<longrightarrow>
      repeat_new n cls' = (replicate n obj, cls')) \<and>
   (initialize env m = (Inr u, m') \<longrightarrow>
      (\<exists>c. crawler m' = Some c \<and>
           repeat_get_crawler envs m' = (replicate (length envs) (Inr (Some c)), m')))"
proof (intro conjI impI)
  assume "CrawlerManager_new cls = (obj, cls')"
  then have "CrawlerManager_new cls' = (obj, cls')" by (rule CrawlerManager_new_again)
  then show "repeat_new n cls' = (replicate n obj, cls')" by (rule repeat_new_same)
next
  assume "initialize env m = (Inr u, m')"
  then obtain c where "initialized m'" and "crawler m' = Some c"
    using initialize_success by blast
  then show "\<exists>c. crawler m' = Some c \<and>
      repeat_get_crawler envs m' = (replicate (length envs) (Inr (Some c)), m')"
    using repeat_get_crawler_initialized by blast
qed

theorem crawler_manager_singleton_lazy_witness:
  "repeat_new 3 \<lparr>cls_instance = Some 0, allocated = 1\<rparr> =
     ([0, 0, 0], \<lparr>cls_instance = Some 0, allocated = 1\<rparr>) \<and>
   (\<exists>c. crawler \<lparr>crawler = Some (AsyncWebCrawler 0 DefaultConfig), initialized = True,
                  using_fallback = False, created = 1\<rparr> = Some c \<and>
        repeat_get_crawler
          [\<lparr>crawl4ai_available = False, is_windows = False, windows_config_raises = None,
            minimal_config_raises = None, default_config_raises = None,
            crawler_constructor_raises = None, crawler_aenter_raises = None,
            fallback_aenter_raises = Some ''no network''\<rparr>,
           \<lparr>crawl4ai_available = True, is_windows = True, windows_config_raises = None,
            minimal_config_raises = None, default_config_raises = None,
            crawler_constructor_raises = None, crawler_aenter_raises = None,
            fallback_aenter_raises = None\<rparr>]
          \<lparr>crawler = Some (AsyncWebCrawler 0 DefaultConfig), initialized = True,
           using_fallback = False, created = 1\<rparr> =
        ([Inr (Some c), Inr (Some c)],
         \<lparr>crawler = Some (AsyncWebCrawler 0 DefaultConfig), initialized = True,
          using_fallback = False, created = 1\<rparr>))"
  using crawler_manager_singleton_lazy
    [of "\<lparr>cls_instance = None, allocated = 0\<rparr>" 0 "\<lparr>cls_instance = Some 0, allocated = 1\<rparr>" 3
        "\<lparr>crawl4ai_available = True, is_windows = False, windows_config_raises = None,
          minimal_config_raises = None, default_config_raises = None,
          crawler_constructor_raises = None, crawler_aenter_raises = None,
          fallback_aenter_raises = None\<rparr>"
        "\<lparr>crawler = None, initialized = False, using_fallback = False, created = 0\<rparr>"
        "()"
        "\<lparr>crawler = Some (AsyncWebCrawler 0 DefaultConfig), initialized = True,
          using_fallback = False, created = 1\<rparr>"
        "[\<lparr>crawl4ai_available = False, is_windows = False, windows_config_raises = None,
            minimal_config_raises = None, default_config_raises = None,
            crawler_constructor_raises = None, crawler_aenter_raises = None,
            fallback_aenter_raises = Some ''no network''\<rparr>,
           \<lparr>crawl4ai_available = True, is_windows = True, windows_config_raises = None,
            minimal_config_raises = None, default_config_raises = None,
            crawler_constructor_raises = None, crawler_aenter_raises = None,
            fallback_aenter_raises = None\<rparr>]"]
  by (simp add: CrawlerManager_new_def initialize_def try_crawl4ai_def make_browser_config_def
      numeral_3_eq_3)

text \<open>
  Claim C8. On a manager that is not initialized yet, when the initialization of the
  crawl4ai crawler raises (with the message \<open>e\<close>), \<^verbatim>\<open>initialize\<close> tries the fallback
  crawler. When the fallback enters its context, \<^verbatim>\<open>initialize\<close> returns, the crawler
  is a \<^verbatim>\<open>FallbackCrawler\<close>, and \<^verbatim>\<open>_initialized\<close> and \<^verbatim>\<open>_using_fallback\<close> are set.
  When the fallback raises too (with the message \<open>fallback_e\<close>), \<^verbatim>\<open>initialize\<close> raises
  an exception that names both messages, \<^verbatim>\<open>_crawler\<close> is \<^verbatim>\<open>None\<close>, and
  \<^verbatim>\<open>_initialized\<close> and \<^verbatim>\<open>_using_fallback\<close> are \<^verbatim>\<open>False\<close>. In no other case does
  \<^verbatim>\<open>initialize\<close> raise.
\<close>

theorem initialize_fallback:
  "(\<not> (initialized m \<and> crawler m \<noteq> None) \<and> fst (try_crawl4ai env m) = Some e \<and>
    fallback_aenter_raises env = None \<longrightarrow>
      (\<exists>obj m'. initialize env m = (Inr (), m') \<and> crawler m' = Some (FallbackCrawler obj) \<and>
                initialized m' \<and> using_fallback m')) \<and>
   (\<not> (initialized m \<and> crawler m \<noteq> None) \<and> fst (try_crawl4ai env m) = Some e \<and>
    fallback_aenter_raises env = Some fallback_e \<longrightarrow>
      (\<exists>m'. initialize env m =
              (Inl (Exception (''Both Crawl4AI and fallback crawler failed: '' @ e @ '', '' @
                               fallback_e)), m') \<and>
            crawler m' = None \<and> \<not> initialized m' \<and> \<not> using_fallback m')) \<and>
   (fst (initialize env m) = Inl err \<longrightarrow>
      \<not> (initialized m \<and> crawler m \<noteq> None) \<and>
      (\<exists>e fallback_e. fst (try_crawl4ai env m) = Some e \<and>
                      fallback_aenter_raises env = Some fallback_e))"
proof (intro conjI impI)
  assume a: "\<not> (initialized m \<and> crawler m \<noteq> None) \<and> fst (try_crawl4ai env m) = Some e \<and>
    fallback_aenter_raises env = None"
  obtain r m1 where t: "try_crawl4ai env m = (r, m1)" by (cases "try_crawl4ai env m")
  with a show "\<exists>obj m'. initialize env m = (Inr (), m') \<and> crawler m' = Some (FallbackCrawler obj) \<and>
                initialized m' \<and> using_fallback m'"
    by (auto simp: initialize_def Let_def)
next
  assume a: "\<not> (initialized m \<and> crawler m \<noteq> None) \<and> fst (try_crawl4ai env m) = Some e \<and>
    fallback_aenter_raises env = Some fallback_e"
  obtain r m1 where t: "try_crawl4ai env m = (r, m1)" by (cases "try_crawl4ai env m")
  with a show "\<exists>m'. initialize env m =
              (Inl (Exception (''Both Crawl4AI and fallback crawler failed: '' @ e @ '', '' @
                               fallback_e)), m') \<and>
            crawler m' = None \<and> \<not> initialized m' \<and> \<not> using_fallback m'"
    by (auto simp: initialize_def Let_def)
next
  assume a: "fst (initialize env m) = Inl err"
  obtain r m1 where t: "try_crawl4ai env m = (r, m1)" by (cases "try_crawl4ai env m")
  from a t show "\<not> (initialized m \<and> crawler m \<noteq> None)"
    by (auto simp: initialize_def split: if_splits)
  from a t show "\<exists>e fallback_e. fst (try_crawl4ai env m) = Some e \<and>
                      fallback_aenter_raises env = Some fallback_e"
    by (auto simp: initialize_def Let_def split: if_splits option.splits)
qed
theorem initialize_fallback_witness:
  "(\<exists>obj m'. initialize
       \<lparr>crawl4ai_available = True, is_windows = False, windows_config_raises = None,
        minimal_config_raises = None, default_config_raises = None,
        crawler_constructor_raises = None, crawler_aenter_raises = Some ''no browser'',
        fallback_aenter_raises = None\<rparr>
       \<lparr>crawler = None, initialized = False, using_fallback = False, created = 0\<rparr> =
       (Inr (), m') \<and>
     crawler m' = Some (FallbackCrawler obj) \<and> initialized m' \<and> using_fallback m') \<and>
   (\<exists>m'. initialize
       \<lparr>crawl4ai_available = False, is_windows = False, windows_config_raises = None,
        minimal_config_raises = None, default_config_raises = None,
        crawler_constructor_raises = None, crawler_aenter_raises = None,
        fallback_aenter_raises = Some ''no network''\<rparr>
       \<lparr>crawler = None, initialized = False, using_fallback = False, created = 0\<rparr> =
       (Inl (Exception (''Both Crawl4AI and fallback crawler failed: '' @
                        ''crawl4ai is not installed or available'' @ '', '' @ ''no network'')),
        m') \<and>
     crawler m' = None \<and> \<not> initialized m' \<and> \<not> using_fallback m') \<and>
   (\<exists>e fallback_e.
      fst (try_crawl4ai
        \<lparr>crawl4ai_available = False, is_windows = False, windows_config_raises = None,
         minimal_config_raises = None, default_config_raises = None,
         crawler_constructor_raises = None, crawler_aenter_raises = None,
         fallback_aenter_raises = Some ''no network''\<rparr>
        \<lparr>crawler = None, initialized = False, using_fallback = False, created = 0\<rparr>) = Some e \<and>
      fallback_aenter_raises
        \<lparr>crawl4ai_available = False, is_windows = False, windows_config_raises = None,
         minimal_config_raises = None, default_config_raises = None,
         crawler_constructor_raises = None, crawler_aenter_raises = None,
         fallback_aenter_raises = Some ''no network''\<rparr> = Some fallback_e)"
proof -
  let ?m = "\<lparr>crawler = None, initialized = False, using_fallback = False, created = 0\<rparr>"
  let ?envA = "\<lparr>crawl4ai_available = True, is_windows = False, windows_config_raises = None,
        minimal_config_raises = None, default_config_raises = None,
        crawler_constructor_raises = None, crawler_aenter_raises = Some ''no browser'',
        fallback_aenter_raises = None\<rparr>"
  let ?envB = "\<lparr>crawl4ai_available = False, is_windows = False, windows_config_raises = None,
        minimal_config_raises = None, default_config_raises = None,
        crawler_constructor_raises = None, crawler_aenter_raises = None,
        fallback_aenter_raises = Some ''no network''\<rparr>"
  let ?err = "Exception (''Both Crawl4AI and fallback crawler failed: '' @
                        ''crawl4ai is not installed or available'' @ '', '' @ ''no network'')"
  have tA: "fst (try_crawl4ai ?envA ?m) = Some ''no browser''"
    by (simp add: try_crawl4ai_def make_browser_config_def)
  have tB: "fst (try_crawl4ai ?envB ?m) = Some ''crawl4ai is not installed or available''"
    by (simp add: try_crawl4ai_def)
  from initialize_fallback [of ?m ?envA "''no browser''" "''no network''" ?err] tA
  have first: "\<exists>obj m'. initialize ?envA ?m = (Inr (), m') \<and>
      crawler m' = Some (FallbackCrawler obj) \<and> initialized m' \<and> using_fallback m'"
    by simp
  from initialize_fallback
    [of ?m ?envB "''crawl4ai is not installed or available''" "''no network''" ?err] tB
  have second: "\<exists>m'. initialize ?envB ?m = (Inl ?err, m') \<and>
      crawler m' = None \<and> \<not> initialized m' \<and> \<not> using_fallback m'"
    and third: "fst (initialize ?envB ?m) = Inl ?err \<longrightarrow>
      (\<exists>e fallback_e. fst (try_crawl4ai ?envB ?m) = Some e \<and>
                      fallback_aenter_raises ?envB = Some fallback_e)"
    by simp_all
  from second have "fst (initialize ?envB ?m) = Inl ?err" by auto
  with third have "\<exists>e fallback_e. fst (try_crawl4ai ?envB ?m) = Some e \<and>
                      fallback_aenter_raises ?envB = Some fallback_e"
    by blast
  with first second show ?thesis by blast
qed

section \<open>Properties: the JSON-RPC endpoint\<close>

lemma obj_get_Some: "map_of items k = Some v \<Longrightarrow> obj_get items k dflt = v"
  by (simp add: obj_get_def)



lemma JSONResponse_error:
  "JSONResponse rt (jsonrpc_error request_id code msg data) =
     (if has_nonfinite request_id \<or> has_nonfinite (JObj data)
        then Inl (ValueError (float_error rt))
      else Inr (jsonrpc_error request_id code msg data))"
  by (simp add: JSONResponse_def jsonrpc_error_def)

lemma call_tool_kwargs:
  assumes "params = JObj kw \<or> (\<not> py_truthy params \<and> kw = [])"
  shows "call_tool rt name tool_handler request_id params =
           (case fn tool_handler kw of
              Raises e \<Rightarrow> Inl e
            | Returns result \<Rightarrow>
                if \<not> is_async tool_handler
                  then Inl (TypeError (await_error rt (returned_type_name result)))
                else (case unwrap_result rt result of
                        Inl e \<Rightarrow> Inl e
                      | Inr r \<Rightarrow> result_response rt request_id r),
            [(name, kw)])"
proof (cases "py_truthy params")
  case True
  with assms have "params = JObj kw" by blast
  with True show ?thesis by (simp add: call_tool_def)
next
  case False
  with assms have "kw = []" by (cases params) auto
  with False show ?thesis by (simp add: call_tool_def)
qed


lemma execute_tool_raises:
  assumes params: "params = JObj kw \<or> (\<not> py_truthy params \<and> kw = [])"
    and call: "fn tool_handler kw = Raises e"
  shows "execute_tool rt name tool_handler request_id params =
           (on_tool_error rt name request_id params e, [(name, kw)])"
  using call by (simp add: execute_tool_def call_tool_kwargs [OF params])

lemma execute_tool_not_awaitable:
  assumes params: "params = JObj kw \<or> (\<not> py_truthy params \<and> kw = [])"
    and call: "fn tool_handler kw = Returns result"
    and async: "\<not> is_async tool_handler"
  shows "execute_tool rt name tool_handler request_id params =
           (on_tool_error rt name request_id params
              (TypeError (await_error rt (returned_type_name result))), [(name, kw)])"
  using call async by (simp add: execute_tool_def call_tool_kwargs [OF params])

lemma execute_tool_not_rendered:
  assumes params: "params = JObj kw \<or> (\<not> py_truthy params \<and> kw = [])"
    and call: "fn tool_handler kw = Returns result"
    and async: "is_async tool_handler"
    and fails: "unwrap_result rt result = Inl e \<or>
                (\<exists>r. unwrap_result rt result = Inr r \<and> result_response rt request_id r = Inl e)"
  shows "execute_tool rt name tool_handler request_id params =
           (on_tool_error rt name request_id params e, [(name, kw)])"
  using call async fails
  by (auto simp add: execute_tool_def call_tool_kwargs [OF params])

lemma on_tool_error_finite:
  assumes "\<not> has_nonfinite request_id"
  shows "on_tool_error rt name request_id params e =
           (case e of
              TypeError te \<Rightarrow>
                if has_nonfinite params then Inl (ValueError (float_error rt))
                else Inr (jsonrpc_error request_id (-32602)
                            (''Invalid params for '' @ name @ '': '' @ te)
                            [(''data'', JObj [(''method'', JStr name), (''params'', params)])])
            | _ \<Rightarrow>
                Inr (jsonrpc_error request_id (-32000)
                       (''Tool execution failed: '' @ error_text e)
                       [(''data'', JObj [(''method'', JStr name),
                                         (''error_type'', JStr (error_type_name e))])]))"
  using assms by (cases e) (simp_all add: on_tool_error_def JSONResponse_error)

lemma endpoint_registered_tool:
  assumes "json_loads rt (raw_body req) = Inr (JObj items)"
    and "map_of items ''jsonrpc'' = Some (JStr ''2.0'')"
    and "map_of items ''method'' = Some (JStr name)"
    and "name \<noteq> []"
    and "map_of registry name = Some tool_handler"
    and "execute_tool rt name tool_handler (obj_get items ''id'' JNull)
           (obj_get items ''params'' (JObj [])) = (Inr response, made)"
  shows "mcp_http_endpoint rt registry req = (Inr response, made)"
proof -
  from assms(2) have rpc: "obj_get items ''jsonrpc'' JNull = JStr ''2.0''"
    by (rule obj_get_Some)
  from assms(3) have meth: "obj_get items ''method'' JNull = JStr name"
    by (rule obj_get_Some)
  from assms(1,4,5,6) rpc meth show ?thesis
    by (simp add: mcp_http_endpoint_def handle_body_def reraise_def Let_def)
qed

text \<open>
  What the endpoint answers when the call of a registered tool does not give a result
  that can be sent, for a request whose id and parameters hold only finite floats: the
  error -32602 when the exception is a \<^verbatim>\<open>TypeError\<close> (raised by the function, by
  \<^verbatim>\<open>await\<close> on what a plain \<^verbatim>\<open>def\<close> returned, or by the rendering of an object that is
  not serialisable), the error -32000 for any other exception (raised by the function, by
  \<^verbatim>\<open>json.loads\<close> on the returned string, or by the rendering of a float that is not
  finite).
\<close>

lemma tool_call_error:
  assumes "json_loads rt (raw_body req) = Inr (JObj items)"
    and "map_of items ''jsonrpc'' = Some (JStr ''2.0'')"
    and "map_of items ''method'' = Some (JStr name)"
    and "name \<noteq> []"
    and "map_of registry name = Some tool_handler"
    and params: "obj_get items ''params'' (JObj []) = JObj kw \<or>
         (\<not> py_truthy (obj_get items ''params'' (JObj [])) \<and> kw = [])"
    and finite: "\<not> has_nonfinite (obj_get items ''id'' JNull)"
         "\<not> has_nonfinite (obj_get items ''params'' (JObj []))"
    and fails: "fn tool_handler kw = Raises e \<or>
       (\<exists>result. fn tool_handler kw = Returns result \<and>
          (if \<not> is_async tool_handler
             then e = TypeError (await_error rt (returned_type_name result))
           else unwrap_result rt result = Inl e \<or>
                (\<exists>r. unwrap_result rt result = Inr r \<and>
                     result_response rt (obj_get items ''id'' JNull) r = Inl e)))"
  shows "mcp_http_endpoint rt registry req =
           (Inr (case e of
                   TypeError te \<Rightarrow>
                     jsonrpc_error (obj_get items ''id'' JNull) (-32602)
                       (''Invalid params for '' @ name @ '': '' @ te)
                       [(''data'', JObj [(''method'', JStr name),
                                         (''params'', obj_get items ''params'' (JObj []))])]
                 | _ \<Rightarrow>
                     jsonrpc_error (obj_get items ''id'' JNull) (-32000)
                       (''Tool execution failed: '' @ error_text e)
                       [(''data'', JObj [(''method'', JStr name),
                                         (''error_type'', JStr (error_type_name e))])]),
            [(name, kw)])"
proof -
  let ?id = "obj_get items ''id'' JNull"
  let ?params = "obj_get items ''params'' (JObj [])"
  have "execute_tool rt name tool_handler ?id ?params =
          (on_tool_error rt name ?id ?params e, [(name, kw)])"
  proof (cases "fn tool_handler kw")
    case (Raises e')
    with fails have "e' = e" by auto
    with Raises show ?thesis by (simp add: execute_tool_raises [OF params])
  next
    case (Returns result)
    show ?thesis
    proof (cases "is_async tool_handler")
      case False
      with Returns fails
      have "e = TypeError (await_error rt (returned_type_name result))" by auto
      with Returns False show ?thesis
        by (simp add: execute_tool_not_awaitable [OF params])
    next
      case True
      with Returns fails
      have "unwrap_result rt result = Inl e \<or>
            (\<exists>r. unwrap_result rt result = Inr r \<and> result_response rt ?id r = Inl e)"
        by auto
      with Returns True show ?thesis
        by (rule execute_tool_not_rendered [OF params])
    qed
  qed
  moreover have "on_tool_error rt name ?id ?params e =
      Inr (case e of
             TypeError te \<Rightarrow>
               jsonrpc_error ?id (-32602) (''Invalid params for '' @ name @ '': '' @ te)
                 [(''data'', JObj [(''method'', JStr name), (''params'', ?params)])]
           | _ \<Rightarrow>
               jsonrpc_error ?id (-32000) (''Tool execution failed: '' @ error_text e)
                 [(''data'', JObj [(''method'', JStr name),
                                   (''error_type'', JStr (error_type_name e))])])"
    using finite by (cases e) (simp_all add: on_tool_error_finite)
  ultimately have "execute_tool rt name tool_handler ?id ?params =
      (Inr (case e of
             TypeError te \<Rightarrow>
               jsonrpc_error ?id (-32602) (''Invalid params for '' @ name @ '': '' @ te)
                 [(''data'', JObj [(''method'', JStr name), (''params'', ?params)])]
           | _ \<Rightarrow>
               jsonrpc_error ?id (-32000) (''Tool execution failed: '' @ error_text e)
                 [(''data'', JObj [(''method'', JStr name),
                                   (''error_type'', JStr (error_type_name e))])]),
       [(name, kw)])"
    by simp
  with assms(1-5) show ?thesis by (rule endpoint_registered_tool)
qed





text \<open>The registered tool \<^verbatim>\<open>strict\<close> takes no keyword argument: with one, its call
  raises \<^verbatim>\<open>TypeError\<close>, and the answer is the error -32602.\<close>

lemma invalid_params_example:
  \<open>mcp_http_endpoint example_runtime example_tools
     \<lparr>raw_body =
        ''{"jsonrpc": "2.0", "id": 9, "method": "strict", "params": {"verbose": true}}''\<rparr> =
   (Inr (jsonrpc_error (JInt 9) (-32602)
           (''Invalid params for strict: strict() got an unexpected keyword argument '' @
            [CHR 0x27] @ ''verbose'' @ [CHR 0x27])
           [(''data'', JObj [(''method'', JStr ''strict''),
                             (''params'', JObj [(''verbose'', JBool True)])])]),
    [(''strict'', [(''verbose'', JBool True)])])\<close>
  by (simp add: mcp_http_endpoint_def handle_body_def reraise_def execute_tool_def
      call_tool_def on_tool_error_def JSONResponse_def jsonrpc_error_def obj_get_def
      example_runtime_def example_documents_def example_tools_def Let_def)




text \<open>
  An id that holds a float that is not finite: the response with the error -32601 cannot
  be rendered; the \<^verbatim>\<open>ValueError\<close> is caught by the last handler of the endpoint, whose
  response holds the same id and cannot be rendered either, and the exception leaves the
  endpoint.
\<close>

lemma nonfinite_id_raises:
  assumes "json_loads rt (raw_body req) = Inr (JObj items)"
    and "map_of items ''jsonrpc'' = Some (JStr ''2.0'')"
    and "map_of items ''method'' = Some (JStr name)"
    and "name \<noteq> []"
    and "map_of registry name = None"
    and "has_nonfinite (obj_get items ''id'' JNull)"
  shows "mcp_http_endpoint rt registry req = (Inl (ValueError (float_error rt)), [])"
proof -
  from assms(2) have rpc: "obj_get items ''jsonrpc'' JNull = JStr ''2.0''"
    by (rule obj_get_Some)
  from assms(3) have meth: "obj_get items ''method'' JNull = JStr name"
    by (rule obj_get_Some)
  from assms(1,4,5,6) rpc meth show ?thesis
    by (simp add: mcp_http_endpoint_def handle_body_def reraise_def on_exception_def
        body_id_def Let_def fmt_def JSONResponse_error)
qed

lemma nonfinite_id_example:
  \<open>mcp_http_endpoint example_runtime example_tools
     \<lparr>raw_body = ''{"jsonrpc": "2.0", "id": NaN, "method": "search"}''\<rparr> =
   (Inl (ValueError ''Out of range float values are not JSON compliant''), [])\<close>
  by (simp add: mcp_http_endpoint_def handle_body_def reraise_def on_exception_def
      body_id_def Let_def fmt_def JSONResponse_error obj_get_def
      example_runtime_def example_documents_def example_tools_def)

text \<open>The cases of the validation that answer with an envelope, and the cases that do
  not.\<close>

lemma validation_errors:
  "(json_loads rt (raw_body req) = Inl (JSONDecodeError msg) \<longrightarrow>
      mcp_http_endpoint rt registry req =
        (Inr (jsonrpc_error JNull (-32700) ''Parse error: Invalid JSON'' []), [])) \<and>
   (json_loads rt (raw_body req) = Inr (JObj items) \<and>
    obj_get items ''jsonrpc'' JNull \<noteq> JStr ''2.0'' \<and>
    \<not> has_nonfinite (obj_get items ''id'' JNull) \<longrightarrow>
      mcp_http_endpoint rt registry req =
        (Inr (jsonrpc_error (obj_get items ''id'' JNull) (-32600) ''Must be JSON-RPC 2.0'' []),
         [])) \<and>
   (json_loads rt (raw_body req) = Inr (JObj items) \<and>
    obj_get items ''jsonrpc'' JNull = JStr ''2.0'' \<and>
    \<not> py_truthy (obj_get items ''method'' JNull) \<and>
    \<not> has_nonfinite (obj_get items ''id'' JNull) \<longrightarrow>
      mcp_http_endpoint rt registry req =
        (Inr (jsonrpc_error (obj_get items ''id'' JNull) (-32600)
                (''Missing '' @ [CHR 0x27] @ ''method'' @ [CHR 0x27] @ '' field'') []),
         []))"
  by (simp add: mcp_http_endpoint_def handle_body_def on_exception_def body_id_def
      JSONResponse_error Let_def)

lemma undecodable_body_internal_error:
  assumes "json_loads rt (raw_body req) = Inl e"
    and "\<forall>msg. e \<noteq> JSONDecodeError msg"
  shows "mcp_http_endpoint rt registry req =
           (Inr (jsonrpc_error JNull (-32603) (''Internal error: '' @ error_text e) []), [])"
  using assms
  by (cases e)
     (simp_all add: mcp_http_endpoint_def on_exception_def body_id_def JSONResponse_error)

lemma non_object_body_raises:
  "json_loads rt (raw_body req) = Inr body \<Longrightarrow> (\<forall>items. body \<noteq> JObj items) \<Longrightarrow>
   \<exists>msg. mcp_http_endpoint rt registry req = (Inl (AttributeError msg), [])"
  by (cases body)
     (simp_all add: mcp_http_endpoint_def handle_body_def on_exception_def body_id_def)

text \<open>
  Claim C3. Three of its four cases hold (\<open>validation_errors\<close>), for an id that a response
  can render: a body that is no JSON gives -32700 with the id \<^verbatim>\<open>null\<close>; a dictionary
  whose \<^verbatim>\<open>jsonrpc\<close> is not \<^verbatim>\<open>"2.0"\<close>, or that has no (or a false) method, gives -32600
  with the message of the validation; no tool is called. The fourth fails: for a body that
  is valid JSON and not a dictionary, the endpoint raises the validation error and then,
  in its handler, reads \<^verbatim>\<open>body.get("id")\<close>, which raises \<^verbatim>\<open>AttributeError\<close>; no envelope
  is returned. (A body of bytes that \<^verbatim>\<open>json.loads\<close> cannot decode raises
  \<^verbatim>\<open>UnicodeDecodeError\<close>, no \<^verbatim>\<open>JSONDecodeError\<close>, and gives -32603, by
  \<open>undecodable_body_internal_error\<close>.)
\<close>

theorem non_object_body_attribute_error:
  "json_loads example_runtime ''[1, 2]'' = Inr (JArr [JInt 1, JInt 2]) \<and>
   mcp_http_endpoint example_runtime example_tools \<lparr>raw_body = ''[1, 2]''\<rparr> =
   (Inl (AttributeError ([CHR 0x27] @ ''list'' @ [CHR 0x27] @ '' object has no attribute '' @
                         [CHR 0x27] @ ''get'' @ [CHR 0x27])), [])"
  by (simp add: mcp_http_endpoint_def handle_body_def on_exception_def body_id_def
      example_runtime_def example_documents_def)


section \<open>Properties: the learning files\<close>



text \<open>The paths that the example gives: the time of the session id on the date of the
  clock.\<close>

lemma get_learning_file_paths_example:
  "get_learning_file_paths example_storage_env
     [base_entry \<lparr>problem_description = Some ''Import error'', investigation_steps = None,
                  solution_applied = None, outcome = None\<rparr> ''L001'' ''2025-01-01T09:30:00'']
     (Some ''external-app-20250101-093000'') =
   Inr [(''absolute'', ''/app/knowledge/metacognition/learning-20250101-093000.md''),
        (''relative'', ''knowledge/metacognition/learning-20250101-093000.md''),
        (''filename'', ''learning-20250101-093000.md'')]"
  by (simp add: get_learning_file_paths_def session_timestamp_def last_field_def
      example_storage_env_def knowledge_dir_def truthy_def dget_def Let_def)

end
